theory Spec2Isabelle
  imports Complex_Main
begin

section \<open>Numbers and errors\<close>

text \<open>
  The Python sources compute on \<open>float\<close>.  The embedding computes on \<^typ>\<open>real\<close>: every
  arithmetic operation of the source is the same operation on the reals, so binary
  rounding of the last bit is idealised away, while every comparison, branch, explicit
  call of \<open>round\<close>, exception and cap of the source is kept.  Python \<open>int\<close> is
  \<^typ>\<open>int\<close>.
\<close>

datatype error = ValueError | ZeroDivisionError | AttributeError | IndexError

text \<open>Python's \<open>round(x, ndigits)\<close>: the nearest multiple of \<open>10^(-ndigits)\<close>, a tie going to
  the even neighbour.\<close>

definition round_half_even :: "real \<Rightarrow> int" where
  "round_half_even x =
     (let f = \<lfloor>x\<rfloor>; d = x - of_int f
      in if d < 1 / 2 then f
         else if d > 1 / 2 then f + 1
         else if even f then f else f + 1)"

definition py_round :: "real \<Rightarrow> nat \<Rightarrow> real" where
  "py_round x ndigits = of_int (round_half_even (x * 10 ^ ndigits)) / 10 ^ ndigits"

section \<open>NFL\_pre.py: configuration and data model\<close>

definition LAST_5_WEIGHT :: real where "LAST_5_WEIGHT = 65 / 100"
definition SEASON_AVG_WEIGHT :: real where "SEASON_AVG_WEIGHT = 35 / 100"
definition ELITE_DEFENSE_THRESHOLD :: "int \<times> int" where "ELITE_DEFENSE_THRESHOLD = (1, 5)"
definition ELITE_DEFENSE_DAMPER :: real where "ELITE_DEFENSE_DAMPER = 88 / 100"
definition POOR_DEFENSE_THRESHOLD :: "int \<times> int" where "POOR_DEFENSE_THRESHOLD = (28, 32)"
definition POOR_DEFENSE_BOOST :: real where "POOR_DEFENSE_BOOST = 112 / 100"
definition QB_EPA_THRESHOLD :: real where "QB_EPA_THRESHOLD = 20 / 100"
definition QB_EPA_BOOST :: real where "QB_EPA_BOOST = 105 / 100"
definition WR_TARGET_SHARE_THRESHOLD :: real where "WR_TARGET_SHARE_THRESHOLD = 28"
definition WR_VOLUME_FLOOR_BOOST :: real where "WR_VOLUME_FLOOR_BOOST = 108 / 100"
definition TRAILING_SCRIPT_SPREAD :: real where "TRAILING_SCRIPT_SPREAD = 65 / 10"
definition LEADING_SCRIPT_SPREAD :: real where "LEADING_SCRIPT_SPREAD = - (65 / 10)"
definition EXPLOSIVE_TOTAL_THRESHOLD :: real where "EXPLOSIVE_TOTAL_THRESHOLD = 495 / 10"
definition MIN_EDGE_FOR_CONFIDENCE :: real where "MIN_EDGE_FOR_CONFIDENCE = 2"
definition MAX_EDGE_FOR_CONFIDENCE :: real where "MAX_EDGE_FOR_CONFIDENCE = 15"

datatype Position = QB | RB | WR | TE

datatype BetType = OVER | UNDER

datatype GameScript = TRAILING | LEADING | EXPLOSIVE | NEUTRAL

record GameContext =
  team :: string
  opponent :: string
  spread :: real
  total :: real
  implied_team_total :: real
  opponent_rank :: int

text \<open>The three stat models share field names in the source; a record field is a global
  name here, so each carries its model's prefix.\<close>

record QBStats =
  qb_passing_yards_l5_avg :: real
  qb_passing_yards_season_total :: real
  qb_rush_yards_l5_avg :: real
  qb_rush_yards_season_total :: real
  qb_epa_per_play :: real
  qb_cpoe :: real
  qb_pass_attempts_l5_avg :: real
  qb_pass_attempts_season_total :: real
  qb_games_played :: int

record RBStats =
  rb_rush_yards_l5_avg :: real
  rb_rush_yards_season_total :: real
  rb_opportunity_share_pct :: real
  rb_yco_per_att :: real
  rb_rush_attempts_l5_avg :: real
  rb_rush_attempts_season_total :: real
  rb_games_played :: int

record WRTEStats =
  wr_rec_yards_l5_avg :: real
  wr_rec_yards_season_total :: real
  wr_target_share_pct :: real
  wr_adot :: real
  wr_air_yards_share :: real
  wr_receptions_l5_avg :: real
  wr_receptions_season_total :: real
  wr_games_played :: int

datatype Stats = QBs QBStats | RBs RBStats | WRTEs WRTEStats

record MarketLines =
  ml_player_name :: string
  ml_position :: Position
  passing_yards :: "real option"
  rush_yards :: "real option"
  rec_yards :: "real option"
  receptions :: "real option"
  pass_attempts :: "real option"
  rush_attempts :: "real option"

record PlayerData =
  name :: string
  pd_position :: Position
  stats :: Stats
  market_lines :: MarketLines

record Projection =
  player_name :: string
  position :: Position
  stat_type :: string
  projected_value :: real
  market_line :: real
  edge :: real
  recommendation :: BetType
  confidence :: real

record ParlayLeg =
  leg_player_name :: string
  leg_stat_type :: string
  line :: real
  direction :: BetType
  leg_edge :: real

record CorrelatedParlay =
  game_script :: GameScript
  legs :: "ParlayLeg list"
  combined_confidence :: real
  correlation_strength :: string

section \<open>NFL\_pre.py: StandardPredictionStrategy and PredictionEngine\<close>

definition calculate_base_projection :: "real \<Rightarrow> real \<Rightarrow> real" where
  "calculate_base_projection last_5_avg season_avg =
     last_5_avg * LAST_5_WEIGHT + season_avg * SEASON_AVG_WEIGHT"

definition apply_dvoa_modifier :: "real \<Rightarrow> int \<Rightarrow> real" where
  "apply_dvoa_modifier v rank =
     (let (elite_min, elite_max) = ELITE_DEFENSE_THRESHOLD;
          (poor_min, poor_max) = POOR_DEFENSE_THRESHOLD
      in if elite_min \<le> rank \<and> rank \<le> elite_max then v * ELITE_DEFENSE_DAMPER
         else if poor_min \<le> rank \<and> rank \<le> poor_max then v * POOR_DEFENSE_BOOST
         else v)"

definition calculate_confidence :: "real \<Rightarrow> real" where
  "calculate_confidence edge_magnitude =
     (if edge_magnitude < MIN_EDGE_FOR_CONFIDENCE
      then 35 + (edge_magnitude / MIN_EDGE_FOR_CONFIDENCE) * 15
      else if edge_magnitude > MAX_EDGE_FOR_CONFIDENCE then 95
      else 50 + ((edge_magnitude - MIN_EDGE_FOR_CONFIDENCE)
                   / (MAX_EDGE_FOR_CONFIDENCE - MIN_EDGE_FOR_CONFIDENCE)) * 45)"

text \<open>\<open>_create_projection\<close>.  The division by the line raises \<open>ZeroDivisionError\<close> on a
  line of zero.  The record keeps the projected value, the edge and the confidence
  rounded to 1, 2 and 1 decimals.\<close>

definition create_projection :: "PlayerData \<Rightarrow> string \<Rightarrow> real \<Rightarrow> real \<Rightarrow> error + Projection" where
  "create_projection player stat projected mline =
     (if mline = 0 then Inl ZeroDivisionError
      else
        let e = ((projected - mline) / mline) * 100;
            rec = (if projected > mline then OVER else UNDER);
            conf = calculate_confidence \<bar>e\<bar>
        in Inr \<lparr> player_name = name player,
                 position = pd_position player,
                 stat_type = stat,
                 projected_value = py_round projected 1,
                 market_line = mline,
                 edge = py_round e 2,
                 recommendation = rec,
                 confidence = py_round conf 1 \<rparr>)"

text \<open>The projections of one player are appended in source order; the first exception
  ends the call.  \<open>None\<close> stands for a market line that is not posted.\<close>

fun collect :: "(error + Projection) option list \<Rightarrow> error + Projection list" where
  "collect [] = Inr []"
| "collect (None # rest) = collect rest"
| "collect (Some (Inl e) # rest) = Inl e"
| "collect (Some (Inr p) # rest) =
     (case collect rest of Inl e \<Rightarrow> Inl e | Inr ps \<Rightarrow> Inr (p # ps))"

definition project_qb :: "GameContext \<Rightarrow> PlayerData \<Rightarrow> error + Projection list" where
  "project_qb ctx player =
     (case stats player of
        QBs s \<Rightarrow>
          if qb_games_played s = 0 then Inl ZeroDivisionError
          else
            let lines = market_lines player;
                season_pass_avg = qb_passing_yards_season_total s / of_int (qb_games_played s);
                season_rush_avg = qb_rush_yards_season_total s / of_int (qb_games_played s);
                season_attempts_avg = qb_pass_attempts_season_total s / of_int (qb_games_played s)
            in collect
              [ map_option (\<lambda>mline.
                  let base_pass = calculate_base_projection (qb_passing_yards_l5_avg s) season_pass_avg;
                      adjusted_pass = apply_dvoa_modifier base_pass (opponent_rank ctx);
                      adjusted_pass = (if qb_epa_per_play s > QB_EPA_THRESHOLD
                                       then adjusted_pass * QB_EPA_BOOST else adjusted_pass)
                  in create_projection player ''Passing Yards'' adjusted_pass mline)
                  (passing_yards lines),
                map_option (\<lambda>mline.
                  let base_rush = calculate_base_projection (qb_rush_yards_l5_avg s) season_rush_avg;
                      adjusted_rush = apply_dvoa_modifier base_rush (opponent_rank ctx)
                  in create_projection player ''Rush Yards'' adjusted_rush mline)
                  (rush_yards lines),
                map_option (\<lambda>mline.
                  let base_attempts = calculate_base_projection (qb_pass_attempts_l5_avg s) season_attempts_avg;
                      base_attempts = (if spread ctx > TRAILING_SCRIPT_SPREAD then base_attempts * (108 / 100)
                                       else if spread ctx < LEADING_SCRIPT_SPREAD then base_attempts * (92 / 100)
                                       else base_attempts)
                  in create_projection player ''Pass Attempts'' base_attempts mline)
                  (pass_attempts lines) ]
      | _ \<Rightarrow> Inl AttributeError)"

definition project_rb :: "GameContext \<Rightarrow> PlayerData \<Rightarrow> error + Projection list" where
  "project_rb ctx player =
     (case stats player of
        RBs s \<Rightarrow>
          if rb_games_played s = 0 then Inl ZeroDivisionError
          else
            let lines = market_lines player;
                season_rush_avg = rb_rush_yards_season_total s / of_int (rb_games_played s);
                season_attempts_avg = rb_rush_attempts_season_total s / of_int (rb_games_played s)
            in collect
              [ map_option (\<lambda>mline.
                  let base_rush = calculate_base_projection (rb_rush_yards_l5_avg s) season_rush_avg;
                      adjusted_rush = apply_dvoa_modifier base_rush (opponent_rank ctx);
                      adjusted_rush = (if rb_opportunity_share_pct s > 70
                                       then adjusted_rush * (105 / 100) else adjusted_rush);
                      adjusted_rush = (if spread ctx < LEADING_SCRIPT_SPREAD then adjusted_rush * (110 / 100)
                                       else if spread ctx > TRAILING_SCRIPT_SPREAD then adjusted_rush * (88 / 100)
                                       else adjusted_rush)
                  in create_projection player ''Rush Yards'' adjusted_rush mline)
                  (rush_yards lines),
                map_option (\<lambda>mline.
                  let base_attempts = calculate_base_projection (rb_rush_attempts_l5_avg s) season_attempts_avg;
                      base_attempts = (if spread ctx < LEADING_SCRIPT_SPREAD then base_attempts * (112 / 100)
                                       else if spread ctx > TRAILING_SCRIPT_SPREAD then base_attempts * (85 / 100)
                                       else base_attempts)
                  in create_projection player ''Rush Attempts'' base_attempts mline)
                  (rush_attempts lines) ]
      | QBs s \<Rightarrow>
          \<comment> \<open>a passer's record has the first attribute read, not the second\<close>
          if qb_games_played s = 0 then Inl ZeroDivisionError else Inl AttributeError
      | WRTEs s \<Rightarrow> Inl AttributeError)"

definition project_wr_te :: "GameContext \<Rightarrow> PlayerData \<Rightarrow> error + Projection list" where
  "project_wr_te ctx player =
     (case stats player of
        WRTEs s \<Rightarrow>
          if wr_games_played s = 0 then Inl ZeroDivisionError
          else
            let lines = market_lines player;
                season_rec_yards_avg = wr_rec_yards_season_total s / of_int (wr_games_played s);
                season_receptions_avg = wr_receptions_season_total s / of_int (wr_games_played s)
            in collect
              [ map_option (\<lambda>mline.
                  let base_rec = calculate_base_projection (wr_rec_yards_l5_avg s) season_rec_yards_avg;
                      adjusted_rec = apply_dvoa_modifier base_rec (opponent_rank ctx);
                      adjusted_rec = (if wr_target_share_pct s > WR_TARGET_SHARE_THRESHOLD
                                      then max (adjusted_rec * WR_VOLUME_FLOOR_BOOST) (mline * (95 / 100))
                                      else adjusted_rec)
                  in create_projection player ''Rec Yards'' adjusted_rec mline)
                  (rec_yards lines),
                map_option (\<lambda>mline.
                  let base_rec = calculate_base_projection (wr_receptions_l5_avg s) season_receptions_avg;
                      base_rec = (if wr_target_share_pct s > 25 then base_rec * (105 / 100) else base_rec)
                  in create_projection player ''Receptions'' base_rec mline)
                  (receptions lines) ]
      | _ \<Rightarrow> Inl AttributeError)"

text \<open>\<open>generate_projections\<close>: the engine's game context is \<open>None\<close> until it is set.\<close>

definition generate_projections :: "GameContext option \<Rightarrow> PlayerData \<Rightarrow> error + Projection list" where
  "generate_projections game_context player =
     (case game_context of
        None \<Rightarrow> Inl ValueError
      | Some ctx \<Rightarrow>
          if pd_position player = QB then project_qb ctx player
          else if pd_position player = RB then project_rb ctx player
          else project_wr_te ctx player)"

text \<open>What one call of \<open>_create_projection\<close> stores for the unrounded projected value it is
  given: the value and the edge rounded, the edge within half a hundredth of the exact
  quotient, and the recommendation decided on the unrounded value.\<close>

definition stored_from :: "Projection \<Rightarrow> real \<Rightarrow> bool" where
  "stored_from p projected \<longleftrightarrow>
     market_line p \<noteq> 0 \<and>
     projected_value p = py_round projected 1 \<and>
     edge p = py_round (((projected - market_line p) / market_line p) * 100) 2 \<and>
     \<bar>edge p - ((projected - market_line p) / market_line p) * 100\<bar> \<le> 1 / 200 \<and>
     (recommendation p = OVER \<longleftrightarrow> projected > market_line p)"

section \<open>NFL\_pre.py: CorrelationEngine\<close>

definition determine_game_script :: "GameContext \<Rightarrow> GameScript" where
  "determine_game_script ctx =
     (if spread ctx > TRAILING_SCRIPT_SPREAD then TRAILING
      else if spread ctx < LEADING_SCRIPT_SPREAD then LEADING
      else if total ctx > EXPLOSIVE_TOTAL_THRESHOLD then EXPLOSIVE
      else NEUTRAL)"

text \<open>\<open>_find_projection\<close>: the first projection of the position and stat type.\<close>

fun find_projection :: "Projection list \<Rightarrow> Position \<Rightarrow> string \<Rightarrow> Projection option" where
  "find_projection [] pos st = None"
| "find_projection (proj # rest) pos st =
     (if position proj = pos \<and> stat_type proj = st then Some proj
      else find_projection rest pos st)"

text \<open>Python's \<open>max(xs, key=lambda p: abs(p.edge))\<close> on a non-empty list: the first element
  whose key is maximal.\<close>

fun max_by_abs_edge :: "Projection \<Rightarrow> Projection list \<Rightarrow> Projection" where
  "max_by_abs_edge best [] = best"
| "max_by_abs_edge best (p # ps) =
     max_by_abs_edge (if \<bar>edge p\<bar> > \<bar>edge best\<bar> then p else best) ps"

definition find_best_projection ::
  "Projection list \<Rightarrow> Position list \<Rightarrow> string \<Rightarrow> BetType \<Rightarrow> Projection option" where
  "find_best_projection projections positions st preferred_direction =
     (let candidates = filter (\<lambda>p. position p \<in> set positions \<and> stat_type p = st) projections
      in case candidates of
           [] \<Rightarrow> None
         | c # cs \<Rightarrow>
             (case filter (\<lambda>c. recommendation c = preferred_direction) candidates of
                m # ms \<Rightarrow> Some (max_by_abs_edge m ms)
              | [] \<Rightarrow> Some (max_by_abs_edge c cs)))"

definition calculate_parlay_confidence :: "ParlayLeg list \<Rightarrow> real" where
  "calculate_parlay_confidence ls =
     (if ls = [] then 0
      else
        let total_edge = sum_list (map leg_edge ls);
            avg_edge = total_edge / real (length ls);
            base = 50 + min (avg_edge * 2) 30;
            positive_legs = length (filter (\<lambda>leg. leg_edge leg > 0) ls);
            bonus = real positive_legs * 5
        in min (base + bonus) 95)"

text \<open>The two leg constructions the builders repeat: a leg forced to Over carries the
  projection's edge when the projection recommends Over and its negation otherwise; a leg
  forced to Under carries the negated edge when the projection recommends Over.\<close>

definition over_leg :: "Projection \<Rightarrow> string \<Rightarrow> ParlayLeg" where
  "over_leg proj st =
     \<lparr> leg_player_name = player_name proj, leg_stat_type = st, line = market_line proj,
       direction = OVER,
       leg_edge = (if recommendation proj = OVER then edge proj else - edge proj) \<rparr>"

definition under_leg :: "Projection \<Rightarrow> string \<Rightarrow> ParlayLeg" where
  "under_leg proj st =
     \<lparr> leg_player_name = player_name proj, leg_stat_type = st, line = market_line proj,
       direction = UNDER,
       leg_edge = (if recommendation proj = OVER then - edge proj else edge proj) \<rparr>"

definition opt_list :: "'a option \<Rightarrow> 'a list" where
  "opt_list r = (case r of None \<Rightarrow> [] | Some x \<Rightarrow> [x])"

definition leg_of :: "Projection option \<Rightarrow> (Projection \<Rightarrow> ParlayLeg) \<Rightarrow> ParlayLeg list" where
  "leg_of found mk = (case found of None \<Rightarrow> [] | Some proj \<Rightarrow> [mk proj])"

definition build_trailing_parlay :: "Projection list \<Rightarrow> CorrelatedParlay option" where
  "build_trailing_parlay projections =
     (let ls = leg_of (find_projection projections QB ''Pass Attempts'')
                 (\<lambda>p. over_leg p ''Pass Attempts'')
             @ leg_of (find_best_projection projections [WR, TE] ''Receptions'' OVER)
                 (\<lambda>p. over_leg p ''Receptions'')
             @ leg_of (find_projection projections RB ''Rush Yards'')
                 (\<lambda>p. under_leg p ''Rush Yards'')
      in if length ls \<ge> 2
         then Some \<lparr> game_script = TRAILING, legs = ls,
                     combined_confidence = calculate_parlay_confidence ls,
                     correlation_strength = (if length ls = 3 then ''Strong'' else ''Moderate'') \<rparr>
         else None)"

definition build_leading_parlay :: "Projection list \<Rightarrow> CorrelatedParlay option" where
  "build_leading_parlay projections =
     (let ls = leg_of (find_projection projections RB ''Rush Attempts'')
                 (\<lambda>p. over_leg p ''Rush Attempts'')
             @ leg_of (find_projection projections RB ''Rush Yards'')
                 (\<lambda>p. over_leg p ''Rush Yards'')
             @ leg_of (find_projection projections QB ''Pass Attempts'')
                 (\<lambda>p. under_leg p ''Pass Attempts'')
      in if length ls \<ge> 2
         then Some \<lparr> game_script = LEADING, legs = ls,
                     combined_confidence = calculate_parlay_confidence ls,
                     correlation_strength = (if length ls = 3 then ''Strong'' else ''Moderate'') \<rparr>
         else None)"

definition build_explosive_parlay :: "Projection list \<Rightarrow> CorrelatedParlay option" where
  "build_explosive_parlay projections =
     (let ls = leg_of (find_projection projections QB ''Passing Yards'')
                 (\<lambda>p. over_leg p ''Passing Yards'')
             @ leg_of (find_best_projection projections [WR, TE] ''Rec Yards'' OVER)
                 (\<lambda>p. over_leg p ''Rec Yards'')
      in if length ls \<ge> 2
         then Some \<lparr> game_script = EXPLOSIVE, legs = ls,
                     combined_confidence = calculate_parlay_confidence ls,
                     correlation_strength = ''Strong'' \<rparr>
         else None)"

definition find_correlated_parlays :: "GameContext \<Rightarrow> Projection list \<Rightarrow> CorrelatedParlay list" where
  "find_correlated_parlays ctx projections =
     (let gs = determine_game_script ctx;
          parlays =
            (if gs = TRAILING then opt_list (build_trailing_parlay projections)
             else if gs = LEADING then opt_list (build_leading_parlay projections)
             else if gs = EXPLOSIVE then opt_list (build_explosive_parlay projections)
             else [])
      in if gs \<noteq> EXPLOSIVE \<and> total ctx > 47
         then parlays @ opt_list (build_explosive_parlay projections)
         else parlays)"

subsection \<open>The spec's worked example as data\<close>

definition worked_context :: GameContext where
  "worked_context =
     \<lparr> team = ''Commanders'', opponent = ''Eagles'', spread = 3, total = 45,
       implied_team_total = 21, opponent_rank = 2 \<rparr>"

definition worked_passer :: PlayerData where
  "worked_passer =
     \<lparr> name = ''Passer'', pd_position = QB,
       stats = QBs \<lparr> qb_passing_yards_l5_avg = 280, qb_passing_yards_season_total = 4250,
                     qb_rush_yards_l5_avg = 20, qb_rush_yards_season_total = 340,
                     qb_epa_per_play = 1 / 10, qb_cpoe = 0,
                     qb_pass_attempts_l5_avg = 35, qb_pass_attempts_season_total = 595,
                     qb_games_played = 17 \<rparr>,
       market_lines = \<lparr> ml_player_name = ''Passer'', ml_position = QB,
                        passing_yards = Some (2455 / 10), rush_yards = None, rec_yards = None,
                        receptions = None, pass_attempts = None, rush_attempts = None \<rparr> \<rparr>"

definition worked_projection :: Projection where
  "worked_projection =
     \<lparr> player_name = ''Passer'', position = QB, stat_type = ''Passing Yards'',
       projected_value = 2372 / 10, market_line = 2455 / 10, edge = - (340 / 100),
       recommendation = UNDER, confidence = 548 / 10 \<rparr>"

subsection \<open>Example players and projections for the parlay builder\<close>

text \<open>Three players whose stats and lines are within the ranges the data models accept,
  and the projections the engine stores for them.\<close>

definition volume_passer :: PlayerData where
  "volume_passer =
     \<lparr> name = ''Passer'', pd_position = QB,
       stats = QBs \<lparr> qb_passing_yards_l5_avg = 280, qb_passing_yards_season_total = 4250,
                     qb_rush_yards_l5_avg = 20, qb_rush_yards_season_total = 340,
                     qb_epa_per_play = 1 / 10, qb_cpoe = 0,
                     qb_pass_attempts_l5_avg = 35, qb_pass_attempts_season_total = 595,
                     qb_games_played = 17 \<rparr>,
       market_lines = \<lparr> ml_player_name = ''Passer'', ml_position = QB,
                        passing_yards = None, rush_yards = None, rec_yards = None,
                        receptions = None, pass_attempts = Some 36, rush_attempts = None \<rparr> \<rparr>"

definition slot_receiver :: PlayerData where
  "slot_receiver =
     \<lparr> name = ''Receiver'', pd_position = WR,
       stats = WRTEs \<lparr> wr_rec_yards_l5_avg = 80, wr_rec_yards_season_total = 1280,
                       wr_target_share_pct = 26, wr_adot = 9, wr_air_yards_share = 25,
                       wr_receptions_l5_avg = 6, wr_receptions_season_total = 96,
                       wr_games_played = 16 \<rparr>,
       market_lines = \<lparr> ml_player_name = ''Receiver'', ml_position = WR,
                        passing_yards = None, rush_yards = None, rec_yards = Some 64,
                        receptions = Some 6, pass_attempts = None, rush_attempts = None \<rparr> \<rparr>"

definition lead_carrier :: PlayerData where
  "lead_carrier =
     \<lparr> name = ''Carrier'', pd_position = RB,
       stats = RBs \<lparr> rb_rush_yards_l5_avg = 150, rb_rush_yards_season_total = 2000,
                     rb_opportunity_share_pct = 65, rb_yco_per_att = 3,
                     rb_rush_attempts_l5_avg = 20, rb_rush_attempts_season_total = 320,
                     rb_games_played = 16 \<rparr>,
       market_lines = \<lparr> ml_player_name = ''Carrier'', ml_position = RB,
                        passing_yards = None, rush_yards = Some 40, rec_yards = None,
                        receptions = None, pass_attempts = None, rush_attempts = None \<rparr> \<rparr>"

definition passer_attempts :: Projection where
  "passer_attempts =
     \<lparr> player_name = ''Passer'', position = QB, stat_type = ''Pass Attempts'',
       projected_value = 378 / 10, market_line = 36, edge = 5,
       recommendation = OVER, confidence = 604 / 10 \<rparr>"

definition receiver_yards :: Projection where
  "receiver_yards =
     \<lparr> player_name = ''Receiver'', position = WR, stat_type = ''Rec Yards'',
       projected_value = 704 / 10, market_line = 64, edge = 10,
       recommendation = OVER, confidence = 777 / 10 \<rparr>"

definition receiver_receptions :: Projection where
  "receiver_receptions =
     \<lparr> player_name = ''Receiver'', position = WR, stat_type = ''Receptions'',
       projected_value = 63 / 10, market_line = 6, edge = 5,
       recommendation = OVER, confidence = 604 / 10 \<rparr>"

definition carrier_rush_yards :: Projection where
  "carrier_rush_yards =
     \<lparr> player_name = ''Carrier'', position = RB, stat_type = ''Rush Yards'',
       projected_value = 1094 / 10, market_line = 40, edge = 17346 / 100,
       recommendation = OVER, confidence = 95 \<rparr>"

definition trailing_context :: GameContext where
  "trailing_context = worked_context\<lparr>spread := 10\<rparr>"

definition explosive_context :: GameContext where
  "explosive_context = worked_context\<lparr>spread := 0, total := 52\<rparr>"

definition trailing_projections :: "Projection list" where
  "trailing_projections =
     [passer_attempts, receiver_yards, receiver_receptions, carrier_rush_yards]"

definition trailing_parlay :: CorrelatedParlay where
  "trailing_parlay =
     \<lparr> game_script = TRAILING,
       legs = [ \<lparr> leg_player_name = ''Passer'', leg_stat_type = ''Pass Attempts'', line = 36,
                  direction = OVER, leg_edge = 5 \<rparr>,
                \<lparr> leg_player_name = ''Receiver'', leg_stat_type = ''Receptions'', line = 6,
                  direction = OVER, leg_edge = 5 \<rparr>,
                \<lparr> leg_player_name = ''Carrier'', leg_stat_type = ''Rush Yards'', line = 40,
                  direction = UNDER, leg_edge = - (17346 / 100) \<rparr> ],
       combined_confidence = - (3673 / 75),
       correlation_strength = ''Strong'' \<rparr>"

section \<open>advanced\_analytics.py: KellyCriterion\<close>

definition calculate_kelly_fraction :: "real \<Rightarrow> real \<Rightarrow> real \<Rightarrow> error + real" where
  "calculate_kelly_fraction true_probability decimal_odds fractional_kelly =
     (if \<not> (0 < true_probability \<and> true_probability < 1) then Inl ValueError
      else if decimal_odds \<le> 1 then Inl ValueError
      else
        let b = decimal_odds - 1;
            p = true_probability;
            q = 1 - p;
            kelly_full = (b * p - q) / b
        in if kelly_full \<le> 0 then Inr 0
           else Inr (min (kelly_full * fractional_kelly) (20 / 100)))"

section \<open>advanced\_analytics.py: MonteCarloSimulator\<close>

text \<open>
  A numpy float array is a list of reals, a matrix a list of rows.  A value that numpy
  reports as \<open>nan\<close> (the mean of an empty array) is \<open>None\<close>.
\<close>

record PropProjection =
  pp_player_name :: string
  pp_stat_type :: string
  mean :: real
  std :: real
  pp_line :: real
  confidence_interval :: "real \<times> real"
  p_over :: real
  brier_score :: "real option"

text \<open>\<open>np.mean\<close> of a boolean array, \<open>np.prod\<close> and the subtraction of two floats.\<close>

definition np_mean_bool :: "bool list \<Rightarrow> real option" where
  "np_mean_bool bs =
     (if bs = [] then None else Some (real (length (filter (\<lambda>b. b) bs)) / real (length bs)))"

fun np_prod :: "real option list \<Rightarrow> real option" where
  "np_prod [] = Some 1"
| "np_prod (None # xs) = None"
| "np_prod (Some v # xs) = map_option (\<lambda>w. v * w) (np_prod xs)"

definition np_sub :: "real option \<Rightarrow> real option \<Rightarrow> real option" where
  "np_sub a b = (case a of None \<Rightarrow> None | Some x \<Rightarrow> map_option (\<lambda>y. x - y) b)"

text \<open>
  \<open>simulate_correlated_props\<close>.  Two values come from numpy and are arguments here:
  \<open>draws\<close>, the \<open>n_simulations \<times> n_props\<close> matrix that \<open>rng.standard_normal\<close> returns, and
  \<open>factor_of\<close>, which maps the correlation matrix to the matrix \<open>L\<close> of the source (its
  Cholesky factor, or on \<open>LinAlgError\<close> the eigenvectors scaled by the roots of the floored
  eigenvalues).  A factor that is not \<open>n_props \<times> n_props\<close> makes the matrix product raise.
\<close>

definition simulate_correlated_props ::
  "real list list \<Rightarrow> (real list list \<Rightarrow> real list list) \<Rightarrow> real list \<Rightarrow> real list
     \<Rightarrow> real list list \<Rightarrow> error + real list list" where
  "simulate_correlated_props draws factor_of means stds correlation_matrix =
     (let n_props = length means;
          L = factor_of correlation_matrix
      in if length L \<noteq> n_props \<or> \<not> list_all (\<lambda>row. length row = n_props) L
            \<or> \<not> list_all (\<lambda>row. length row = n_props) draws \<or> length stds \<noteq> n_props
         then Inl ValueError
         else Inr (map (\<lambda>u.
                 map (\<lambda>j. max ((\<Sum>m\<leftarrow>[0..<n_props]. u ! m * (L ! j) ! m) * stds ! j + means ! j) 0)
                   [0..<n_props])
               draws))"

definition np_eye :: "nat \<Rightarrow> real list list" where
  "np_eye n = map (\<lambda>i. map (\<lambda>j. if i = j then 1 else 0) [0..<n]) [0..<n]"

record ParlayStatistics =
  true_probability :: "real option"
  independent_probability :: "real option"
  correlation_advantage :: "real option"
  individual_probabilities :: "real option list"

definition simulate_parlay ::
  "real list list \<Rightarrow> (real list list \<Rightarrow> real list list) \<Rightarrow> PropProjection list
     \<Rightarrow> real list list option \<Rightarrow> error + ParlayStatistics" where
  "simulate_parlay draws factor_of props correlation_matrix =
     (let n_props = length props;
          correlation_matrix =
            (case correlation_matrix of None \<Rightarrow> np_eye n_props | Some c \<Rightarrow> c);
          means = map mean props;
          stds = map std props;
          lines = map pp_line props
      in case simulate_correlated_props draws factor_of means stds correlation_matrix of
           Inl e \<Rightarrow> Inl e
         | Inr simulated \<Rightarrow>
             let all_legs_hit = map (\<lambda>row. list_all (\<lambda>j. row ! j > lines ! j) [0..<n_props]) simulated;
                 parlay_probability = np_mean_bool all_legs_hit;
                 individual_probs =
                   map (\<lambda>j. np_mean_bool (map (\<lambda>row. row ! j > lines ! j) simulated)) [0..<n_props];
                 independent_prob = np_prod individual_probs
             in Inr \<lparr> true_probability = parlay_probability,
                      independent_probability = independent_prob,
                      correlation_advantage = np_sub parlay_probability independent_prob,
                      individual_probabilities = individual_probs \<rparr>)"

text \<open>
  The quantities C8 names, read off a sample matrix by counting rows: the marginal
  over-probability of leg \<open>j\<close> and the joint over-probability of all legs.
\<close>

definition marginal_over :: "real list list \<Rightarrow> PropProjection list \<Rightarrow> nat \<Rightarrow> real" where
  "marginal_over simulated props j =
     real (length (filter (\<lambda>row. row ! j > pp_line (props ! j)) simulated))
       / real (length simulated)"

definition joint_over :: "real list list \<Rightarrow> PropProjection list \<Rightarrow> real" where
  "joint_over simulated props =
     real (length (filter (\<lambda>row. \<forall>j \<in> {0..<length props}. row ! j > pp_line (props ! j))
                     simulated))
       / real (length simulated)"

definition two_leg_props :: "PropProjection list" where
  "two_leg_props =
     [ \<lparr> pp_player_name = ''Passer'', pp_stat_type = ''Passing Yards'', mean = 250, std = 40,
         pp_line = 245, confidence_interval = (184, 316), p_over = 55 / 100,
         brier_score = None \<rparr>,
       \<lparr> pp_player_name = ''Receiver'', pp_stat_type = ''Rec Yards'', mean = 70, std = 20,
         pp_line = 60, confidence_interval = (37, 103), p_over = 69 / 100,
         brier_score = None \<rparr> ]"

definition four_draws :: "real list list" where
  "four_draws = [[1, 1], [1, 1], [- 1, - 1], [- 1, 1]]"

definition four_draw_statistics :: ParlayStatistics where
  "four_draw_statistics =
     \<lparr> true_probability = Some (1 / 2), independent_probability = Some (3 / 8),
       correlation_advantage = Some (1 / 8),
       individual_probabilities = [Some (1 / 2), Some (3 / 4)] \<rparr>"

section \<open>advanced\_analytics.py: ModelEvaluator\<close>

text \<open>\<open>np.linspace(0, 1, n_bins + 1)\<close>: the \<open>n_bins + 1\<close> edges \<open>i / n_bins\<close>.\<close>

definition linspace01 :: "nat \<Rightarrow> real list" where
  "linspace01 n_bins = map (\<lambda>i. real i / real n_bins) [0..<n_bins + 1]"

text \<open>\<open>np.digitize(x, bins)\<close> for increasing edges: the index \<open>i\<close> with
  \<open>bins[i-1] \<le> x < bins[i]\<close>, which is the number of edges that are at most \<open>x\<close>; it is
  \<open>len(bins)\<close> from the last edge on.\<close>

definition digitize :: "real \<Rightarrow> real list \<Rightarrow> int" where
  "digitize x bins = int (length (filter (\<lambda>b. b \<le> x) bins))"

definition bin_index :: "nat \<Rightarrow> real \<Rightarrow> int" where
  "bin_index n_bins x = digitize x (linspace01 n_bins) - 1"

text \<open>The elements of \<open>values\<close> under the mask \<open>bin_indices == i\<close>.\<close>

definition masked :: "int list \<Rightarrow> int \<Rightarrow> real list \<Rightarrow> real list" where
  "masked bin_indices i vs = map snd (filter (\<lambda>(b, v). b = i) (zip bin_indices vs))"

definition np_mean :: "real list \<Rightarrow> real" where
  "np_mean xs = sum_list xs / real (length xs)"

text \<open>Boolean indexing with a mask of another length raises \<open>IndexError\<close>.  The two result
  arrays of \<open>calibration_curve\<close> are returned as one pair of lists.\<close>

definition calibration_curve ::
  "real list \<Rightarrow> real list \<Rightarrow> nat \<Rightarrow> error + (real list \<times> real list)" where
  "calibration_curve true_outcomes predicted_probs n_bins =
     (let bin_indices = map (bin_index n_bins) predicted_probs;
          nonempty = filter (\<lambda>i. length (filter (\<lambda>b. b = int i) bin_indices) > 0) [0..<n_bins]
      in if nonempty \<noteq> [] \<and> length true_outcomes \<noteq> length predicted_probs then Inl IndexError
         else Inr (map (\<lambda>i. np_mean (masked bin_indices (int i) predicted_probs)) nonempty,
                   map (\<lambda>i. np_mean (masked bin_indices (int i) true_outcomes)) nonempty))"

definition expected_calibration_error :: "real list \<Rightarrow> real list \<Rightarrow> nat \<Rightarrow> error + real" where
  "expected_calibration_error true_outcomes predicted_probs n_bins =
     (let bin_indices = map (bin_index n_bins) predicted_probs;
          n_total = length predicted_probs;
          nonempty = filter (\<lambda>i. length (filter (\<lambda>b. b = int i) bin_indices) > 0) [0..<n_bins]
      in if nonempty \<noteq> [] \<and> length true_outcomes \<noteq> length predicted_probs then Inl IndexError
         else Inr (\<Sum>i\<leftarrow>nonempty.
                 let n_bin = length (filter (\<lambda>b. b = int i) bin_indices);
                     bin_acc = np_mean (masked bin_indices (int i) true_outcomes);
                     bin_conf = np_mean (masked bin_indices (int i) predicted_probs)
                 in (real n_bin / real n_total) * \<bar>bin_acc - bin_conf\<bar>))"

section \<open>advanced\_analytics.py: AdversarialValidator\<close>

text \<open>
  A pandas \<open>DataFrame\<close> is an object the caller and the callee share; \<open>validate\<close> is
  therefore a state transformer on the two frames it is given.  A frame is its number of
  rows and its columns in order.  \<open>df[c] = v\<close> overwrites the column \<open>c\<close> with the constant
  \<open>v\<close> when the frame has it and appends it otherwise.
\<close>

record DataFrame =
  n_rows :: nat
  columns :: "(string \<times> real list) list"

definition set_column :: "DataFrame \<Rightarrow> string \<Rightarrow> real \<Rightarrow> DataFrame" where
  "set_column df c v =
     (if c \<in> set (map fst (columns df))
      then df\<lparr>columns := map (\<lambda>(k, vs). if k = c then (k, replicate (n_rows df) v) else (k, vs))
                              (columns df)\<rparr>
      else df\<lparr>columns := columns df @ [(c, replicate (n_rows df) v)]\<rparr>)"

record ValidationReport =
  mean_auc :: real
  std_auc :: real
  warning :: string
  passed :: bool

definition np_std :: "real list \<Rightarrow> real" where
  "np_std xs = sqrt (np_mean (map (\<lambda>x. (x - np_mean xs)\<^sup>2) xs))"

text \<open>
  \<open>validate\<close>.  The cross-validated forest is scikit-learn's: \<open>fold_aucs\<close> stands for the
  concatenation, the stratified split, the fits and the AUC of each fold, and returns the
  list \<open>aucs\<close> or the exception one of them raises.  The result is the two frames as the
  call leaves them, and the report or the exception.
\<close>

definition validate ::
  "(DataFrame \<Rightarrow> DataFrame \<Rightarrow> error + real list) \<Rightarrow> DataFrame \<Rightarrow> DataFrame
     \<Rightarrow> (DataFrame \<times> DataFrame) \<times> (error + ValidationReport)" where
  "validate fold_aucs train_features test_features =
     (let train_features = set_column train_features ''is_test'' 0;
          test_features = set_column test_features ''is_test'' 1
      in ((train_features, test_features),
          (case fold_aucs train_features test_features of
             Inl e \<Rightarrow> Inl e
           | Inr aucs \<Rightarrow>
               let m = np_mean aucs;
                   sd = np_std aucs;
                   w = (if m > 7 / 10
                        then ''HIGH RISK: Significant covariate shift detected. Model may not generalize.''
                        else if m > 6 / 10
                        then ''MODERATE RISK: Some distribution shift present. Use caution.''
                        else ''LOW RISK: Train and test distributions are similar.'')
               in Inr \<lparr> mean_auc = m, std_auc = sd, warning = w, passed = (m < 7 / 10) \<rparr>)))"

definition small_train :: DataFrame where
  "small_train = \<lparr> n_rows = 2, columns = [(''f0'', [1, 2])] \<rparr>"

definition small_test :: DataFrame where
  "small_test = \<lparr> n_rows = 1, columns = [(''f0'', [3])] \<rparr>"

section \<open>advanced\_analytics.py: PropCorrelationEngine\<close>

text \<open>
  A correlation or covariance matrix is a square labelled frame: its labels in order and
  its entries by label, \<open>None\<close> standing for \<open>nan\<close> (pandas reports the correlation with a
  constant column, and any statistic of fewer than two games, as \<open>nan\<close>).  The frames the
  engine reads are the ones \<open>corr\<close> and \<open>cov\<close> return, whose row labels are their column
  labels, so a lookup by two labels of the frame finds an entry.  With a label that occurs
  twice the lookup returns a frame, and its comparison with the threshold raises
  \<open>ValueError\<close>.
\<close>

record LabelledMatrix =
  labels :: "string list"
  loc :: "string \<Rightarrow> string \<Rightarrow> real option"

record PropCorrelationEngine =
  min_sample_size :: int
  significance_level :: real
  correlation_matrix :: "LabelledMatrix option"
  covariance_matrix :: "LabelledMatrix option"

record CorrelatedPair =
  prop1 :: string
  prop2 :: string
  correlation :: real
  covariance :: "real option"
  p_value :: real
  sample_size :: int

text \<open>Pearson correlation and sample covariance of two columns, as \<open>DataFrame.corr\<close> and
  \<open>DataFrame.cov\<close> define them.\<close>

definition co_moment :: "real list \<Rightarrow> real list \<Rightarrow> real" where
  "co_moment xs ys = (\<Sum>(x, y)\<leftarrow>zip xs ys. (x - np_mean xs) * (y - np_mean ys))"

definition pearson :: "real list \<Rightarrow> real list \<Rightarrow> real option" where
  "pearson xs ys =
     (if length xs < 2 \<or> co_moment xs xs = 0 \<or> co_moment ys ys = 0 then None
      else Some (co_moment xs ys / sqrt (co_moment xs xs * co_moment ys ys)))"

definition sample_cov :: "real list \<Rightarrow> real list \<Rightarrow> real option" where
  "sample_cov xs ys =
     (if length xs < 2 then None else Some (co_moment xs ys / (real (length xs) - 1)))"

definition column :: "DataFrame \<Rightarrow> string \<Rightarrow> real list" where
  "column df c = (case map_of (columns df) c of None \<Rightarrow> [] | Some vs \<Rightarrow> vs)"

text \<open>\<open>calculate_prop_correlations\<close> stores both matrices in the engine and returns the
  correlation matrix; the warning on a small sample changes nothing else.\<close>

definition calculate_prop_correlations ::
  "PropCorrelationEngine \<Rightarrow> DataFrame \<Rightarrow> string list
     \<Rightarrow> error + (PropCorrelationEngine \<times> LabelledMatrix)" where
  "calculate_prop_correlations eng historical_data props =
     (let available_props = filter (\<lambda>p. p \<in> set (map fst (columns historical_data))) props
      in if length available_props < 2 then Inl ValueError
         else
           let cm = \<lparr> labels = available_props,
                      loc = (\<lambda>a b. pearson (column historical_data a) (column historical_data b)) \<rparr>;
               cv = \<lparr> labels = available_props,
                      loc = (\<lambda>a b. sample_cov (column historical_data a) (column historical_data b)) \<rparr>
           in Inr (eng\<lparr>correlation_matrix := Some cm, covariance_matrix := Some cv\<rparr>, cm))"

text \<open>
  Modelled library function: \<open>scipy.stats.norm.cdf\<close>, the standard normal distribution
  function, by its power series
  \<open>1/2 + (1 / sqrt (2 pi)) * (\<Sum>k. (-1)^k x^(2k+1) / (2^k k! (2k+1)))\<close>.
\<close>

definition norm_cdf :: "real \<Rightarrow> real" where
  "norm_cdf x =
     1 / 2 + (\<Sum>k. (- 1) ^ k * x ^ (2 * k + 1) / (2 ^ k * fact k * real (2 * k + 1))) / sqrt (2 * pi)"

text \<open>
  The significance test of one pair, with \<open>n\<close> the sample size the source uses.  The
  result is \<open>None\<close> where the floats of the source give \<open>nan\<close>: the root of a negative
  \<open>n - 3\<close>; the logarithm of a negative quotient; \<open>inf / inf\<close> when \<open>n = 3\<close> and the
  correlation is \<open>1\<close> or \<open>-1\<close>.  A correlation of \<open>1\<close> or \<open>-1\<close> otherwise gives an infinite
  \<open>z\<close> and the p-value 0; \<open>n = 3\<close> gives an infinite standard error and the argument 0.
\<close>

definition fisher_p_value :: "int \<Rightarrow> real \<Rightarrow> real option" where
  "fisher_p_value n corr =
     (if n < 3 then None
      else if corr < - 1 \<or> 1 < corr then None
      else if corr = 1 \<or> corr = - 1 then (if n = 3 then None else Some 0)
      else if n = 3 then Some (2 * (1 - norm_cdf 0))
      else
        let z = (1 / 2) * ln ((1 + corr) / (1 - corr));
            se = 1 / sqrt (of_int (n - 3))
        in Some (2 * (1 - norm_cdf (\<bar>z\<bar> / se))))"

text \<open>The pairs \<open>(props[i], props[j])\<close> with \<open>i < j\<close>, in the order of the two loops.\<close>

fun unique_pairs :: "'a list \<Rightarrow> ('a \<times> 'a) list" where
  "unique_pairs [] = []"
| "unique_pairs (x # xs) = map (Pair x) xs @ unique_pairs xs"

text \<open>One iteration of the inner loop: the pair it appends, if any.  A \<open>nan\<close> correlation
  passes the threshold test (the comparison is false) and fails the significance test.\<close>

definition significant_pair ::
  "PropCorrelationEngine \<Rightarrow> LabelledMatrix \<Rightarrow> real \<Rightarrow> string \<times> string \<Rightarrow> CorrelatedPair option" where
  "significant_pair eng cm min_correlation pr =
     (case loc cm (fst pr) (snd pr) of
        None \<Rightarrow> None
      | Some corr \<Rightarrow>
          if \<bar>corr\<bar> < min_correlation then None
          else
            let n = min_sample_size eng
            in case fisher_p_value n corr of
                 None \<Rightarrow> None
               | Some pv \<Rightarrow>
                   if pv < significance_level eng
                   then Some \<lparr> prop1 = fst pr, prop2 = snd pr, correlation = corr,
                               covariance = (case covariance_matrix eng of
                                               None \<Rightarrow> Some 0
                                             | Some cv \<Rightarrow> loc cv (fst pr) (snd pr)),
                               p_value = pv, sample_size = n \<rparr>
                   else None)"

text \<open>\<open>find_significant_pairs\<close>; \<open>list.sort(key, reverse=True)\<close> is the stable sort by the
  negated key.\<close>

definition find_significant_pairs ::
  "PropCorrelationEngine \<Rightarrow> LabelledMatrix option \<Rightarrow> real \<Rightarrow> error + CorrelatedPair list" where
  "find_significant_pairs eng correlation_matrix_arg min_correlation =
     (case (case correlation_matrix_arg of None \<Rightarrow> correlation_matrix eng | Some m \<Rightarrow> Some m) of
        None \<Rightarrow> Inl ValueError
      | Some cm \<Rightarrow>
          if \<not> distinct (labels cm) then Inl ValueError
          else
          let significant_pairs =
                List.map_filter (significant_pair eng cm min_correlation) (unique_pairs (labels cm))
          in Inr (sort_key (\<lambda>p. - \<bar>correlation p\<bar>) significant_pairs))"

subsection \<open>Example data for the correlation engine\<close>

text \<open>Four historical games in which one passing-yards series is recorded under two
  labels, an engine with the default configuration, and the engine after
  \<open>calculate_prop_correlations\<close>.\<close>

definition duplicate_games :: DataFrame where
  "duplicate_games =
     \<lparr> n_rows = 4,
       columns = [(''QB_Pass_Yards'', [250, 300, 200, 350]),
                  (''Team_Pass_Yards'', [250, 300, 200, 350])] \<rparr>"

definition default_engine :: PropCorrelationEngine where
  "default_engine =
     \<lparr> min_sample_size = 30, significance_level = 5 / 100,
       correlation_matrix = None, covariance_matrix = None \<rparr>"

definition duplicate_matrix :: LabelledMatrix where
  "duplicate_matrix =
     \<lparr> labels = [''QB_Pass_Yards'', ''Team_Pass_Yards''],
       loc = (\<lambda>a b. pearson (column duplicate_games a) (column duplicate_games b)) \<rparr>"

definition analysed_engine :: PropCorrelationEngine where
  "analysed_engine =
     \<lparr> min_sample_size = 30, significance_level = 5 / 100,
       correlation_matrix = Some duplicate_matrix,
       covariance_matrix =
         Some \<lparr> labels = [''QB_Pass_Yards'', ''Team_Pass_Yards''],
                loc = (\<lambda>a b. sample_cov (column duplicate_games a) (column duplicate_games b)) \<rparr> \<rparr>"

definition duplicate_pair :: CorrelatedPair where
  "duplicate_pair =
     \<lparr> prop1 = ''QB_Pass_Yards'', prop2 = ''Team_Pass_Yards'', correlation = 1,
       covariance = Some (12500 / 3), p_value = 0, sample_size = 30 \<rparr>"

text \<open>Four games of two props whose Pearson correlation is 0, an engine constructed with
  \<open>min_sample_size=30, significance_level=2.0\<close>, and the engine after
  \<open>calculate_prop_correlations\<close>.\<close>

definition four_games :: DataFrame where
  "four_games =
     \<lparr> n_rows = 4, columns = [(''A'', [1, - 1, 1, - 1]), (''B'', [1, 1, - 1, - 1])] \<rparr>"

definition lenient_engine :: PropCorrelationEngine where
  "lenient_engine =
     \<lparr> min_sample_size = 30, significance_level = 2,
       correlation_matrix = None, covariance_matrix = None \<rparr>"

definition lenient_analysed_engine :: PropCorrelationEngine where
  "lenient_analysed_engine =
     \<lparr> min_sample_size = 30, significance_level = 2,
       correlation_matrix =
         Some \<lparr> labels = [''A'', ''B''],
                loc = (\<lambda>a b. pearson (column four_games a) (column four_games b)) \<rparr>,
       covariance_matrix =
         Some \<lparr> labels = [''A'', ''B''],
                loc = (\<lambda>a b. sample_cov (column four_games a) (column four_games b)) \<rparr> \<rparr>"

definition uncorrelated_matrix :: LabelledMatrix where
  "uncorrelated_matrix =
     \<lparr> labels = [''A'', ''B''], loc = (\<lambda>a b. Some (if a = b then 1 else 0)) \<rparr>"

definition uncorrelated_pair :: CorrelatedPair where
  "uncorrelated_pair =
     \<lparr> prop1 = ''A'', prop2 = ''B'', correlation = 0, covariance = Some 0, p_value = 1,
       sample_size = 30 \<rparr>"

section \<open>Properties of the projection engine\<close>

lemmas Config_defs =
  LAST_5_WEIGHT_def SEASON_AVG_WEIGHT_def ELITE_DEFENSE_THRESHOLD_def ELITE_DEFENSE_DAMPER_def
  POOR_DEFENSE_THRESHOLD_def POOR_DEFENSE_BOOST_def QB_EPA_THRESHOLD_def QB_EPA_BOOST_def
  WR_TARGET_SHARE_THRESHOLD_def WR_VOLUME_FLOOR_BOOST_def TRAILING_SCRIPT_SPREAD_def
  LEADING_SCRIPT_SPREAD_def EXPLOSIVE_TOTAL_THRESHOLD_def MIN_EDGE_FOR_CONFIDENCE_def
  MAX_EDGE_FOR_CONFIDENCE_def

lemma calculate_confidence_low:
  "e < 2 \<Longrightarrow> calculate_confidence e = 35 + (e / 2) * 15"
  by (simp add: calculate_confidence_def Config_defs)

lemma calculate_confidence_mid:
  "2 \<le> e \<Longrightarrow> e \<le> 15 \<Longrightarrow> calculate_confidence e = 50 + ((e - 2) / 13) * 45"
  by (simp add: calculate_confidence_def Config_defs)

lemma calculate_confidence_high:
  "15 \<le> e \<Longrightarrow> calculate_confidence e = 95"
  by (simp add: calculate_confidence_def Config_defs)

lemma calculate_confidence_range:
  assumes "0 \<le> e"
  shows "35 \<le> calculate_confidence e \<and> calculate_confidence e \<le> 95"
proof -
  consider "e < 2" | "2 \<le> e" "e \<le> 15" | "15 < e" by linarith
  then show ?thesis
  proof cases
    case 1
    with assms show ?thesis by (simp add: calculate_confidence_low)
  next
    case 2
    then have "0 \<le> (e - 2) / 13" "(e - 2) / 13 \<le> 1" by simp_all
    with 2 show ?thesis by (simp add: calculate_confidence_mid)
  next
    case 3
    then show ?thesis by (simp add: calculate_confidence_high)
  qed
qed

lemma calculate_confidence_mono:
  assumes "0 \<le> a" "a \<le> b"
  shows "calculate_confidence a \<le> calculate_confidence b"
proof -
  consider "b < 2" | "a < 2" "2 \<le> b" | "2 \<le> a" "b \<le> 15" | "2 \<le> a" "15 < b"
    using assms by linarith
  then show ?thesis
  proof cases
    case 1
    with assms show ?thesis by (simp add: calculate_confidence_low)
  next
    case 2
    have "calculate_confidence a \<le> 50" using 2 by (simp add: calculate_confidence_low)
    moreover have "50 \<le> calculate_confidence b"
    proof (cases "b \<le> 15")
      case True
      with 2 have "0 \<le> (b - 2) / 13" by simp
      with 2 True show ?thesis by (simp add: calculate_confidence_mid)
    next
      case False
      then show ?thesis by (simp add: calculate_confidence_high)
    qed
    ultimately show ?thesis by linarith
  next
    case 3
    with assms have "(a - 2) / 13 \<le> (b - 2) / 13" by (simp add: divide_right_mono)
    with 3 assms show ?thesis by (simp add: calculate_confidence_mid)
  next
    case 4
    have "calculate_confidence a \<le> 95"
      using calculate_confidence_range [of a] assms by simp
    with 4 show ?thesis by (simp add: calculate_confidence_high)
  qed
qed

subsection \<open>Rounding\<close>

lemma round_half_even_error: "\<bar>of_int (round_half_even y) - y\<bar> \<le> 1 / 2"
proof -
  define f where "f = \<lfloor>y\<rfloor>"
  have b: "of_int f \<le> y" "y < of_int f + 1"
    unfolding f_def by linarith+
  have "round_half_even y =
      (if y - of_int f < 1 / 2 then f
       else if y - of_int f > 1 / 2 then f + 1
       else if even f then f else f + 1)"
    by (simp add: round_half_even_def Let_def f_def)
  with b show ?thesis
    by (auto simp: abs_if split: if_splits)
qed

lemma py_round_error: "\<bar>py_round x n - x\<bar> \<le> 1 / (2 * 10 ^ n)"
proof -
  have pos: "(0::real) < 10 ^ n" by simp
  have "py_round x n - x = (of_int (round_half_even (x * 10 ^ n)) - x * 10 ^ n) / 10 ^ n"
    by (simp add: py_round_def diff_divide_distrib)
  then have "\<bar>py_round x n - x\<bar> = \<bar>of_int (round_half_even (x * 10 ^ n)) - x * 10 ^ n\<bar> / 10 ^ n"
    by (simp add: abs_divide)
  also have "\<dots> \<le> (1 / 2) / 10 ^ n"
    by (rule divide_right_mono [OF round_half_even_error]) simp
  also have "\<dots> = 1 / (2 * 10 ^ n)"
    by simp
  finally show ?thesis .
qed

subsection \<open>Projections\<close>

lemma collect_members:
  "collect xs = Inr ps \<Longrightarrow> p \<in> set ps \<Longrightarrow> Some (Inr p) \<in> set xs"
proof (induction xs arbitrary: ps rule: collect.induct)
  case 1
  then show ?case by simp
next
  case (2 rest)
  then show ?case by simp
next
  case (3 e rest)
  then show ?case by simp
next
  case (4 q rest)
  then show ?case by (auto split: sum.splits)
qed

lemma create_projection_stored:
  assumes "create_projection player st projected mline = Inr p"
  shows "stored_from p projected"
proof -
  from assms have nz: "mline \<noteq> 0"
    by (auto simp: create_projection_def split: if_splits)
  with assms have p: "market_line p = mline" "projected_value p = py_round projected 1"
    "edge p = py_round (((projected - mline) / mline) * 100) 2"
    "recommendation p = (if projected > mline then OVER else UNDER)"
    by (auto simp: create_projection_def Let_def)
  have "\<bar>edge p - ((projected - mline) / mline) * 100\<bar> \<le> 1 / 200"
    using py_round_error [of "((projected - mline) / mline) * 100" 2] p(3) by simp
  with nz p show ?thesis by (simp add: stored_from_def)
qed

lemma create_projection_stored_sym:
  "Inr p = create_projection player st projected mline \<Longrightarrow> \<exists>x. stored_from p x"
  using create_projection_stored [of player st projected mline p] by auto

lemma posted_line_stored:
  assumes "Some (Inr p) = map_option (\<lambda>l. create_projection player st (g l) l) posted"
  shows "\<exists>x. stored_from p x"
proof (cases posted)
  case None
  with assms show ?thesis by simp
next
  case (Some l)
  with assms have "Inr p = create_projection player st (g l) l" by simp
  then show ?thesis by (rule create_projection_stored_sym)
qed

lemma project_qb_stored:
  assumes "project_qb ctx player = Inr projs" "p \<in> set projs"
  shows "\<exists>projected. stored_from p projected"
  using assms unfolding project_qb_def Let_def
  by (auto split: Stats.splits if_splits dest!: collect_members
        dest: create_projection_stored_sym posted_line_stored)

lemma project_rb_stored:
  assumes "project_rb ctx player = Inr projs" "p \<in> set projs"
  shows "\<exists>projected. stored_from p projected"
  using assms unfolding project_rb_def Let_def
  by (auto split: Stats.splits if_splits dest!: collect_members
        dest: create_projection_stored_sym posted_line_stored)

lemma project_wr_te_stored:
  assumes "project_wr_te ctx player = Inr projs" "p \<in> set projs"
  shows "\<exists>projected. stored_from p projected"
  using assms unfolding project_wr_te_def Let_def
  by (auto split: Stats.splits if_splits dest!: collect_members
        dest: create_projection_stored_sym posted_line_stored)

lemma worked_passer_projections:
  "generate_projections (Some worked_context) worked_passer = Inr [worked_projection]"
  by (simp add: generate_projections_def project_qb_def worked_context_def worked_passer_def
        worked_projection_def create_projection_def calculate_base_projection_def
        apply_dvoa_modifier_def calculate_confidence_def Config_defs py_round_def
        round_half_even_def Let_def)

text \<open>
  C1, as stated, fails.  In the spec's worked example (last-5 average 280, season average
  250, opponent rank 2, line 245.5) the engine hands the unrounded projection 237.16 to
  \<open>_create_projection\<close>; the stored edge is \<open>-3.4\<close>, which is neither
  \<open>(237.16 - 245.5) / 245.5 * 100\<close> nor the same expression on the stored projected
  value 237.2.
\<close>

theorem stored_edge_not_exact:
  "generate_projections (Some worked_context) worked_passer = Inr [worked_projection]
   \<and> create_projection worked_passer ''Passing Yards'' (23716 / 100) (2455 / 10)
       = Inr worked_projection
   \<and> edge worked_projection \<noteq> ((23716 / 100 - 2455 / 10) / (2455 / 10)) * 100
   \<and> edge worked_projection
       \<noteq> ((projected_value worked_projection - market_line worked_projection)
            / market_line worked_projection) * 100"
proof -
  have "create_projection worked_passer ''Passing Yards'' (23716 / 100) (2455 / 10)
          = Inr worked_projection"
    by (simp add: worked_passer_def worked_projection_def create_projection_def
          calculate_confidence_def Config_defs py_round_def round_half_even_def Let_def)
  moreover have "edge worked_projection \<noteq> ((23716 / 100 - 2455 / 10) / (2455 / 10)) * 100"
    by (simp add: worked_projection_def)
  moreover have "edge worked_projection
       \<noteq> ((projected_value worked_projection - market_line worked_projection)
            / market_line worked_projection) * 100"
    by (simp add: worked_projection_def)
  ultimately show ?thesis
    using worked_passer_projections by simp
qed

text \<open>
  C1, amended.  Every projection that \<open>generate_projections\<close> returns was stored from an
  unrounded projected value \<open>x\<close> and a non-zero line: the stored projected value is \<open>x\<close>
  rounded to one decimal, the stored edge is \<open>(x - line) / line * 100\<close> rounded to two
  decimals (so within 0.005 of the exact quotient), and the recommendation is Over exactly
  when \<open>x > line\<close>.
\<close>

theorem generated_edge_rounded:
  assumes "generate_projections game_context player = Inr projs"
    and "p \<in> set projs"
  shows "\<exists>projected. stored_from p projected"
proof -
  from assms(1) obtain ctx where "game_context = Some ctx"
    by (auto simp: generate_projections_def split: option.splits)
  with assms(1) consider "project_qb ctx player = Inr projs"
    | "project_rb ctx player = Inr projs" | "project_wr_te ctx player = Inr projs"
    by (auto simp: generate_projections_def split: if_splits)
  then show ?thesis
  proof cases
    case 1
    then show ?thesis using assms(2) by (rule project_qb_stored)
  next
    case 2
    then show ?thesis using assms(2) by (rule project_rb_stored)
  next
    case 3
    then show ?thesis using assms(2) by (rule project_wr_te_stored)
  qed
qed

theorem generated_edge_rounded_witness:
  "generate_projections (Some worked_context) worked_passer = Inr [worked_projection]
   \<and> worked_projection \<in> set [worked_projection]
   \<and> (\<exists>projected. stored_from worked_projection projected)"
  using generated_edge_rounded [OF worked_passer_projections, of worked_projection]
    worked_passer_projections by simp

text \<open>
  C2.  For every edge magnitude \<open>e \<ge> 0\<close> the confidence is \<open>35 + (e / 2) * 15\<close> below 2,
  \<open>50 + ((e - 2) / 13) * 45\<close> from 2 to 15 and 95 from 15 on; it lies in \<open>[35, 95]\<close> and is
  non-decreasing in \<open>e\<close>.
\<close>

theorem confidence_piecewise_bounded_monotone:
  assumes "0 \<le> e"
  shows "(e < 2 \<longrightarrow> calculate_confidence e = 35 + (e / 2) * 15)
       \<and> (2 \<le> e \<and> e \<le> 15 \<longrightarrow> calculate_confidence e = 50 + ((e - 2) / 13) * 45)
       \<and> (15 \<le> e \<longrightarrow> calculate_confidence e = 95)
       \<and> 35 \<le> calculate_confidence e \<and> calculate_confidence e \<le> 95
       \<and> (\<forall>e'. e \<le> e' \<longrightarrow> calculate_confidence e \<le> calculate_confidence e')"
  using assms calculate_confidence_range [of e]
  by (simp add: calculate_confidence_low calculate_confidence_mid calculate_confidence_high
        calculate_confidence_mono)

theorem confidence_piecewise_bounded_monotone_witness:
  "calculate_confidence 1 = 35 + (1 / 2) * 15
   \<and> calculate_confidence 5 = 50 + ((5 - 2) / 13) * 45
   \<and> calculate_confidence 20 = 95
   \<and> 35 \<le> calculate_confidence 1 \<and> calculate_confidence 20 \<le> 95
   \<and> calculate_confidence 1 \<le> calculate_confidence 5
   \<and> calculate_confidence 5 \<le> calculate_confidence 20"
  using confidence_piecewise_bounded_monotone [of 1]
    confidence_piecewise_bounded_monotone [of 5]
    confidence_piecewise_bounded_monotone [of 20]
  by simp

text \<open>
  C3.  The game script is Trailing when the spread is above 6.5, Leading when it is below
  -6.5, otherwise Explosive when the total is above 49.5, otherwise Neutral; the four
  examples of the spec evaluate as stated, whatever the other fields of the context.
\<close>

theorem game_script_classification:
  "(spread ctx > 65 / 10 \<longrightarrow> determine_game_script ctx = TRAILING)
   \<and> (spread ctx < - (65 / 10) \<longrightarrow> determine_game_script ctx = LEADING)
   \<and> (- (65 / 10) \<le> spread ctx \<and> spread ctx \<le> 65 / 10 \<and> total ctx > 495 / 10
        \<longrightarrow> determine_game_script ctx = EXPLOSIVE)
   \<and> (- (65 / 10) \<le> spread ctx \<and> spread ctx \<le> 65 / 10 \<and> total ctx \<le> 495 / 10
        \<longrightarrow> determine_game_script ctx = NEUTRAL)
   \<and> determine_game_script (ctx\<lparr>spread := 8\<rparr>) = TRAILING
   \<and> determine_game_script (ctx\<lparr>spread := - 8\<rparr>) = LEADING
   \<and> determine_game_script (ctx\<lparr>spread := 0, total := 52\<rparr>) = EXPLOSIVE
   \<and> determine_game_script (ctx\<lparr>spread := 0, total := 44\<rparr>) = NEUTRAL"
  by (simp add: determine_game_script_def Config_defs)

theorem game_script_classification_witness:
  "determine_game_script (worked_context\<lparr>spread := 7\<rparr>) = TRAILING
   \<and> determine_game_script (worked_context\<lparr>spread := - 7\<rparr>) = LEADING
   \<and> determine_game_script (worked_context\<lparr>spread := 65 / 10, total := 50\<rparr>) = EXPLOSIVE
   \<and> determine_game_script (worked_context\<lparr>spread := - (65 / 10), total := 495 / 10\<rparr>) = NEUTRAL"
  using game_script_classification [of "worked_context\<lparr>spread := 7\<rparr>"]
    game_script_classification [of "worked_context\<lparr>spread := - 7\<rparr>"]
    game_script_classification [of "worked_context\<lparr>spread := 65 / 10, total := 50\<rparr>"]
    game_script_classification [of "worked_context\<lparr>spread := - (65 / 10), total := 495 / 10\<rparr>"]
  by simp

section \<open>Properties of the parlay builder\<close>

lemma leg_of_length: "length (leg_of found mk) \<le> 1"
  by (simp add: leg_of_def split: option.splits)

lemma build_trailing_parlay_label:
  assumes "build_trailing_parlay projections = Some par"
  shows "game_script par = TRAILING
       \<and> (length (legs par) = 3 \<and> correlation_strength par = ''Strong''
          \<or> length (legs par) = 2 \<and> correlation_strength par = ''Moderate'')"
proof -
  define ls where "ls = leg_of (find_projection projections QB ''Pass Attempts'')
                 (\<lambda>p. over_leg p ''Pass Attempts'')
             @ leg_of (find_best_projection projections [WR, TE] ''Receptions'' OVER)
                 (\<lambda>p. over_leg p ''Receptions'')
             @ leg_of (find_projection projections RB ''Rush Yards'')
                 (\<lambda>p. under_leg p ''Rush Yards'')"
  have le: "length ls \<le> 3"
    unfolding ls_def
    using leg_of_length [of "find_projection projections QB ''Pass Attempts''"
                            "\<lambda>p. over_leg p ''Pass Attempts''"]
      leg_of_length [of "find_best_projection projections [WR, TE] ''Receptions'' OVER"
                            "\<lambda>p. over_leg p ''Receptions''"]
      leg_of_length [of "find_projection projections RB ''Rush Yards''"
                            "\<lambda>p. under_leg p ''Rush Yards''"]
    by simp
  from assms have ge: "2 \<le> length ls"
    and par: "par = \<lparr> game_script = TRAILING, legs = ls,
                     combined_confidence = calculate_parlay_confidence ls,
                     correlation_strength = (if length ls = 3 then ''Strong'' else ''Moderate'') \<rparr>"
    unfolding build_trailing_parlay_def ls_def [symmetric] Let_def
    by (auto split: if_splits)
  from le ge have "length ls = 2 \<or> length ls = 3" by linarith
  with par show ?thesis by auto
qed

lemma build_leading_parlay_label:
  assumes "build_leading_parlay projections = Some par"
  shows "game_script par = LEADING
       \<and> (length (legs par) = 3 \<and> correlation_strength par = ''Strong''
          \<or> length (legs par) = 2 \<and> correlation_strength par = ''Moderate'')"
proof -
  define ls where "ls = leg_of (find_projection projections RB ''Rush Attempts'')
                 (\<lambda>p. over_leg p ''Rush Attempts'')
             @ leg_of (find_projection projections RB ''Rush Yards'')
                 (\<lambda>p. over_leg p ''Rush Yards'')
             @ leg_of (find_projection projections QB ''Pass Attempts'')
                 (\<lambda>p. under_leg p ''Pass Attempts'')"
  have le: "length ls \<le> 3"
    unfolding ls_def
    using leg_of_length [of "find_projection projections RB ''Rush Attempts''"
                            "\<lambda>p. over_leg p ''Rush Attempts''"]
      leg_of_length [of "find_projection projections RB ''Rush Yards''"
                            "\<lambda>p. over_leg p ''Rush Yards''"]
      leg_of_length [of "find_projection projections QB ''Pass Attempts''"
                            "\<lambda>p. under_leg p ''Pass Attempts''"]
    by simp
  from assms have ge: "2 \<le> length ls"
    and par: "par = \<lparr> game_script = LEADING, legs = ls,
                     combined_confidence = calculate_parlay_confidence ls,
                     correlation_strength = (if length ls = 3 then ''Strong'' else ''Moderate'') \<rparr>"
    unfolding build_leading_parlay_def ls_def [symmetric] Let_def
    by (auto split: if_splits)
  from le ge have "length ls = 2 \<or> length ls = 3" by linarith
  with par show ?thesis by auto
qed

lemma build_explosive_parlay_label:
  assumes "build_explosive_parlay projections = Some par"
  shows "game_script par = EXPLOSIVE \<and> length (legs par) = 2
       \<and> correlation_strength par = ''Strong''"
proof -
  define ls where "ls = leg_of (find_projection projections QB ''Passing Yards'')
                 (\<lambda>p. over_leg p ''Passing Yards'')
             @ leg_of (find_best_projection projections [WR, TE] ''Rec Yards'' OVER)
                 (\<lambda>p. over_leg p ''Rec Yards'')"
  have le: "length ls \<le> 2"
    unfolding ls_def
    using leg_of_length [of "find_projection projections QB ''Passing Yards''"
                            "\<lambda>p. over_leg p ''Passing Yards''"]
      leg_of_length [of "find_best_projection projections [WR, TE] ''Rec Yards'' OVER"
                            "\<lambda>p. over_leg p ''Rec Yards''"]
    by simp
  from assms have ge: "2 \<le> length ls"
    and par: "par = \<lparr> game_script = EXPLOSIVE, legs = ls,
                     combined_confidence = calculate_parlay_confidence ls,
                     correlation_strength = ''Strong'' \<rparr>"
    unfolding build_explosive_parlay_def ls_def [symmetric] Let_def
    by (auto split: if_splits)
  from le ge have "length ls = 2" by linarith
  with par show ?thesis by auto
qed

lemma find_correlated_parlays_cases:
  assumes "par \<in> set (find_correlated_parlays ctx projections)"
  shows "build_trailing_parlay projections = Some par
       \<or> build_leading_parlay projections = Some par
       \<or> build_explosive_parlay projections = Some par"
  using assms
  by (auto simp: find_correlated_parlays_def opt_list_def Let_def
        split: if_splits option.splits)

lemma calculate_parlay_confidence_capped: "calculate_parlay_confidence ls \<le> 95"
  by (simp add: calculate_parlay_confidence_def Let_def)

lemma trailing_projections_generated:
  "generate_projections (Some trailing_context) volume_passer = Inr [passer_attempts]"
  "generate_projections (Some trailing_context) slot_receiver
     = Inr [receiver_yards, receiver_receptions]"
  "generate_projections (Some trailing_context) lead_carrier = Inr [carrier_rush_yards]"
  by (simp_all add: generate_projections_def project_qb_def project_rb_def project_wr_te_def
        trailing_context_def worked_context_def volume_passer_def slot_receiver_def
        lead_carrier_def passer_attempts_def receiver_yards_def receiver_receptions_def
        carrier_rush_yards_def create_projection_def calculate_base_projection_def
        apply_dvoa_modifier_def calculate_confidence_def Config_defs py_round_def
        round_half_even_def Let_def)

lemma trailing_example_parlays:
  "find_correlated_parlays trailing_context trailing_projections = [trailing_parlay]"
  by (simp add: find_correlated_parlays_def determine_game_script_def trailing_context_def
        worked_context_def Config_defs build_trailing_parlay_def leg_of_def opt_list_def
        find_best_projection_def trailing_projections_def passer_attempts_def
        receiver_yards_def receiver_receptions_def
        carrier_rush_yards_def trailing_parlay_def over_leg_def under_leg_def
        calculate_parlay_confidence_def Let_def)

text \<open>
  C4.  The combined confidence has a cap and no floor.  With a spread of 10 (Trailing) the
  engine projects a passer, a receiver and a ball-carrier whose rush-yards line of 40 is
  far below his projection of 109.4 (edge 173.46).  The builder forces that leg to Under
  with the edge \<open>-173.46\<close>; the three legs average \<open>-54.49\<close>, and the parlay is emitted with
  the combined confidence \<open>50 - 108.97 + 10 = -48.97\<close>, below 0.
\<close>

theorem parlay_confidence_below_zero:
  "generate_projections (Some trailing_context) volume_passer = Inr [passer_attempts]
   \<and> generate_projections (Some trailing_context) slot_receiver
       = Inr [receiver_yards, receiver_receptions]
   \<and> generate_projections (Some trailing_context) lead_carrier = Inr [carrier_rush_yards]
   \<and> find_correlated_parlays trailing_context
         [passer_attempts, receiver_yards, receiver_receptions, carrier_rush_yards]
       = [trailing_parlay]
   \<and> combined_confidence trailing_parlay
       = calculate_parlay_confidence (legs trailing_parlay)
   \<and> combined_confidence trailing_parlay = - (3673 / 75)
   \<and> combined_confidence trailing_parlay < 0"
proof -
  have "calculate_parlay_confidence (legs trailing_parlay) = - (3673 / 75)"
    by (simp add: trailing_parlay_def calculate_parlay_confidence_def Let_def)
  moreover have "combined_confidence trailing_parlay = - (3673 / 75)"
    by (simp add: trailing_parlay_def)
  ultimately show ?thesis
    using trailing_example_parlays trailing_projections_generated
    by (simp add: trailing_projections_def)
qed

text \<open>
  C5, as stated, fails: with a total of 52 and no large spread the Explosive parlay of a
  passer's passing yards and a receiver's receiving yards has two legs and the label
  \<open>Strong\<close>.
\<close>

theorem explosive_parlay_strong_with_two_legs:
  "map (\<lambda>par. (game_script par, length (legs par), correlation_strength par))
     (find_correlated_parlays explosive_context
        [worked_projection, receiver_yards, receiver_receptions])
   = [(EXPLOSIVE, 2, ''Strong'')]"
  by (simp add: find_correlated_parlays_def determine_game_script_def explosive_context_def
        worked_context_def Config_defs build_explosive_parlay_def leg_of_def opt_list_def
        find_best_projection_def worked_projection_def receiver_yards_def
        receiver_receptions_def Let_def)

text \<open>
  C5, amended.  Every emitted parlay has two or three legs.  A Trailing or Leading parlay is
  labelled \<open>Strong\<close> exactly when it has three legs and \<open>Moderate\<close> when it has two; an
  Explosive parlay always has two legs and is always labelled \<open>Strong\<close>.
\<close>

theorem correlation_strength_label:
  assumes "par \<in> set (find_correlated_parlays ctx projections)"
  shows "(game_script par = EXPLOSIVE \<and> length (legs par) = 2
            \<and> correlation_strength par = ''Strong'')
       \<or> ((game_script par = TRAILING \<or> game_script par = LEADING)
            \<and> (length (legs par) = 3 \<and> correlation_strength par = ''Strong''
               \<or> length (legs par) = 2 \<and> correlation_strength par = ''Moderate''))"
proof -
  from find_correlated_parlays_cases [OF assms]
  consider "build_trailing_parlay projections = Some par"
    | "build_leading_parlay projections = Some par"
    | "build_explosive_parlay projections = Some par"
    by blast
  then show ?thesis
  proof cases
    case 1
    from build_trailing_parlay_label [OF this] show ?thesis by blast
  next
    case 2
    from build_leading_parlay_label [OF this] show ?thesis by blast
  next
    case 3
    from build_explosive_parlay_label [OF this] show ?thesis by blast
  qed
qed

theorem correlation_strength_label_witness:
  "trailing_parlay \<in> set (find_correlated_parlays trailing_context trailing_projections)
   \<and> game_script trailing_parlay = TRAILING
   \<and> length (legs trailing_parlay) = 3
   \<and> correlation_strength trailing_parlay = ''Strong''"
proof -
  have m: "trailing_parlay \<in> set (find_correlated_parlays trailing_context trailing_projections)"
    by (simp add: trailing_example_parlays)
  have "game_script trailing_parlay = TRAILING"
    by (simp add: trailing_parlay_def)
  with correlation_strength_label [OF m] m show ?thesis
    by (auto simp: trailing_parlay_def)
qed

section \<open>Properties of the Kelly sizing\<close>

lemma kelly_no_edge:
  assumes "0 < p" "p < 1" "1 < d" "((d - 1) * p - (1 - p)) / (d - 1) \<le> 0"
  shows "calculate_kelly_fraction p d f = Inr 0"
  using assms by (simp add: calculate_kelly_fraction_def Let_def)

lemma kelly_edge:
  assumes "0 < p" "p < 1" "1 < d" "0 < ((d - 1) * p - (1 - p)) / (d - 1)"
  shows "calculate_kelly_fraction p d f
           = Inr (min (((d - 1) * p - (1 - p)) / (d - 1) * f) (20 / 100))"
  using assms by (simp add: calculate_kelly_fraction_def Let_def)

text \<open>
  C7.  For a probability strictly between 0 and 1 and decimal odds above 1, with
  \<open>b = d - 1\<close> and \<open>full = (b p - (1 - p)) / b\<close>, the Kelly fraction is 0 when
  \<open>full \<le> 0\<close> and \<open>min (full * fractional_kelly) 0.20\<close> otherwise; at the default quarter
  Kelly, \<open>p = 0.50\<close> at odds 1.91 gives 0 and \<open>p = 0.60\<close> at odds 1.91 gives a fraction that
  is positive and at most 0.20.
\<close>

theorem kelly_fraction_formula:
  assumes "0 < p" "p < 1" "1 < d"
  shows "(((d - 1) * p - (1 - p)) / (d - 1) \<le> 0
            \<longrightarrow> calculate_kelly_fraction p d f = Inr 0)
       \<and> (0 < ((d - 1) * p - (1 - p)) / (d - 1)
            \<longrightarrow> calculate_kelly_fraction p d f
                  = Inr (min (((d - 1) * p - (1 - p)) / (d - 1) * f) (20 / 100)))
       \<and> calculate_kelly_fraction (50 / 100) (191 / 100) (25 / 100) = Inr 0
       \<and> (\<exists>v. calculate_kelly_fraction (60 / 100) (191 / 100) (25 / 100) = Inr v
              \<and> 0 < v \<and> v \<le> 20 / 100)"
proof -
  have "calculate_kelly_fraction (50 / 100) (191 / 100) (25 / 100) = Inr 0"
    by (rule kelly_no_edge) simp_all
  moreover have "calculate_kelly_fraction (60 / 100) (191 / 100) (25 / 100) = Inr (73 / 1820)"
    by (simp add: calculate_kelly_fraction_def Let_def)
  then have "\<exists>v. calculate_kelly_fraction (60 / 100) (191 / 100) (25 / 100) = Inr v
              \<and> 0 < v \<and> v \<le> 20 / 100"
    by (intro exI [of _ "73 / 1820"]) simp
  moreover note kelly_no_edge [OF assms, of f] kelly_edge [OF assms, of f]
  ultimately show ?thesis
    by blast
qed

theorem kelly_fraction_formula_witness:
  "calculate_kelly_fraction (50 / 100) (191 / 100) (25 / 100) = Inr 0
   \<and> calculate_kelly_fraction (60 / 100) (191 / 100) (25 / 100) = Inr (73 / 1820)
   \<and> calculate_kelly_fraction (90 / 100) 3 1 = Inr (20 / 100)"
  using kelly_fraction_formula [of "50 / 100" "191 / 100" "25 / 100"]
    kelly_fraction_formula [of "60 / 100" "191 / 100" "25 / 100"]
    kelly_fraction_formula [of "90 / 100" 3 1]
  by simp

section \<open>Properties of the parlay simulation\<close>

lemma np_mean_bool_count:
  "xs \<noteq> [] \<Longrightarrow> np_mean_bool (map P xs) = Some (real (length (filter P xs)) / real (length xs))"
  by (simp add: np_mean_bool_def filter_map comp_def)

lemma np_prod_all_numbers:
  "np_prod (map (\<lambda>j. Some (g j)) js) = Some (prod_list (map g js))"
  by (induction js) simp_all

lemma simulate_correlated_props_length:
  "simulate_correlated_props draws factor_of means stds cm = Inr simulated
     \<Longrightarrow> length simulated = length draws"
  by (auto simp: simulate_correlated_props_def Let_def split: if_splits)

lemma individual_probs_marginal:
  assumes "simulated \<noteq> []"
  shows "map (\<lambda>j. np_mean_bool (map (\<lambda>row. row ! j > map pp_line props ! j) simulated))
           [0..<length props]
         = map (\<lambda>j. Some (marginal_over simulated props j)) [0..<length props]"
  using assms by (simp add: np_mean_bool_count marginal_over_def)

lemma all_legs_hit_joint:
  assumes "simulated \<noteq> []"
  shows "np_mean_bool
           (map (\<lambda>row. list_all (\<lambda>j. row ! j > map pp_line props ! j) [0..<length props]) simulated)
         = Some (joint_over simulated props)"
proof -
  have "(\<lambda>row. list_all (\<lambda>j. row ! j > map pp_line props ! j) [0..<length props])
          = (\<lambda>row. \<forall>j \<in> {0..<length props}. row ! j > pp_line (props ! j))"
    by (auto simp: list_all_iff)
  with assms show ?thesis
    by (simp add: np_mean_bool_count joint_over_def)
qed

text \<open>
  C8.  Whatever the draws, the factor, the props and the correlation matrix: when the
  simulation returns on at least one draw, the per-leg probabilities it reports are the
  marginal over-probabilities of the one sample matrix it drew, the independent
  probability is exactly their product, the true probability is the fraction of rows in
  which every leg is strictly above its line, and the correlation advantage is the true
  probability minus the independent probability.
\<close>

theorem parlay_probabilities_from_one_sample:
  assumes "simulate_parlay draws factor_of props cm = Inr res" and "draws \<noteq> []"
  shows "\<exists>simulated.
           simulate_correlated_props draws factor_of (map mean props) (map std props)
             (case cm of None \<Rightarrow> np_eye (length props) | Some c \<Rightarrow> c) = Inr simulated
         \<and> length simulated = length draws
         \<and> individual_probabilities res
             = map (\<lambda>j. Some (marginal_over simulated props j)) [0..<length props]
         \<and> independent_probability res
             = Some (prod_list (map (marginal_over simulated props) [0..<length props]))
         \<and> true_probability res = Some (joint_over simulated props)
         \<and> correlation_advantage res
             = Some (joint_over simulated props
                     - prod_list (map (marginal_over simulated props) [0..<length props]))"
proof -
  from assms(1) obtain simulated where
    sim: "simulate_correlated_props draws factor_of (map mean props) (map std props)
             (case cm of None \<Rightarrow> np_eye (length props) | Some c \<Rightarrow> c) = Inr simulated"
    by (auto simp: simulate_parlay_def Let_def split: sum.splits)
  then have len: "length simulated = length draws"
    by (rule simulate_correlated_props_length)
  with assms(2) have ne: "simulated \<noteq> []" by auto
  let ?ind = "map (\<lambda>j. np_mean_bool (map (\<lambda>row. row ! j > map pp_line props ! j) simulated))
           [0..<length props]"
  let ?tp = "np_mean_bool
           (map (\<lambda>row. list_all (\<lambda>j. row ! j > map pp_line props ! j) [0..<length props]) simulated)"
  from assms(1) sim have res: "res = \<lparr> true_probability = ?tp,
                      independent_probability = np_prod ?ind,
                      correlation_advantage = np_sub ?tp (np_prod ?ind),
                      individual_probabilities = ?ind \<rparr>"
    by (simp add: simulate_parlay_def Let_def)
  have ind: "?ind = map (\<lambda>j. Some (marginal_over simulated props j)) [0..<length props]"
    using ne by (rule individual_probs_marginal)
  have tp: "?tp = Some (joint_over simulated props)"
    using ne by (rule all_legs_hit_joint)
  have prod: "np_prod ?ind
      = Some (prod_list (map (marginal_over simulated props) [0..<length props]))"
    unfolding ind by (rule np_prod_all_numbers)
  show ?thesis
    using sim len by (intro exI [of _ simulated]) (simp add: res ind [symmetric] tp prod np_sub_def)
qed

lemma four_draw_simulation:
  "simulate_parlay four_draws (\<lambda>c. c) two_leg_props None = Inr four_draw_statistics"
  by code_simp

theorem parlay_probabilities_from_one_sample_witness:
  "simulate_parlay four_draws (\<lambda>c. c) two_leg_props None = Inr four_draw_statistics
   \<and> four_draws \<noteq> []
   \<and> (\<exists>simulated.
           simulate_correlated_props four_draws (\<lambda>c. c) (map mean two_leg_props)
             (map std two_leg_props) (np_eye (length two_leg_props)) = Inr simulated
         \<and> length simulated = length four_draws
         \<and> individual_probabilities four_draw_statistics
             = map (\<lambda>j. Some (marginal_over simulated two_leg_props j)) [0..<length two_leg_props]
         \<and> independent_probability four_draw_statistics
             = Some (prod_list (map (marginal_over simulated two_leg_props)
                                  [0..<length two_leg_props]))
         \<and> true_probability four_draw_statistics = Some (joint_over simulated two_leg_props)
         \<and> correlation_advantage four_draw_statistics
             = Some (joint_over simulated two_leg_props
                     - prod_list (map (marginal_over simulated two_leg_props)
                                    [0..<length two_leg_props])))"
proof -
  have ne: "four_draws \<noteq> []" by (simp add: four_draws_def)
  from parlay_probabilities_from_one_sample [OF four_draw_simulation ne]
  show ?thesis using four_draw_simulation ne by simp
qed

section \<open>Properties of the calibration metrics\<close>

lemma digitize_last_edge:
  "digitize 1 (linspace01 n_bins) = int n_bins + 1"
proof -
  have "filter (\<lambda>b. b \<le> 1) (linspace01 n_bins) = linspace01 n_bins"
    by (rule filter_True) (auto simp: linspace01_def divide_le_eq_1)
  then show ?thesis
    by (simp add: digitize_def linspace01_def)
qed

lemma bin_index_one: "bin_index n_bins 1 = int n_bins"
  by (simp add: bin_index_def digitize_last_edge)

lemma bin_index_interior:
  assumes "0 < n_bins" "0 \<le> x" "x < 1"
  shows "0 \<le> bin_index n_bins x \<and> bin_index n_bins x < int n_bins"
proof -
  let ?e = "\<lambda>i. real i / real n_bins"
  have split: "[0..<n_bins + 1] = [0..<n_bins] @ [n_bins]" by simp
  have last: "\<not> ?e n_bins \<le> x" using assms by simp
  have "filter (\<lambda>b. b \<le> x) (linspace01 n_bins)
          = filter (\<lambda>b. b \<le> x) (map ?e [0..<n_bins])"
    unfolding linspace01_def split using last by simp
  then have "length (filter (\<lambda>b. b \<le> x) (linspace01 n_bins)) \<le> n_bins"
    using length_filter_le [of "\<lambda>b. b \<le> x" "map ?e [0..<n_bins]"] by simp
  moreover have "0 < length (filter (\<lambda>b. b \<le> x) (linspace01 n_bins))"
  proof -
    have "?e 0 \<in> set (linspace01 n_bins)" by (auto simp: linspace01_def)
    moreover have "?e 0 \<le> x" using assms by simp
    ultimately have "?e 0 \<in> set (filter (\<lambda>b. b \<le> x) (linspace01 n_bins))" by simp
    then show ?thesis by (metis length_pos_if_in_set)
  qed
  ultimately show ?thesis
    by (simp add: bin_index_def digitize_def)
qed

text \<open>
  C10.  A prediction of exactly 1.0 gets the bin index \<open>n_bins\<close>, which the loop over
  \<open>range(n_bins)\<close> never visits.  With ten bins, the single prediction 1.0 for an event
  that did not happen yields an empty calibration curve and an ECE of 0; among the
  predictions 1.0, 0.95 and 0.35 only the last two reach a bin, and the weights of the ECE
  sum to 2/3.
\<close>

theorem prediction_one_falls_outside_bins:
  "bin_index 10 1 = 10
   \<and> calibration_curve [0] [1] 10 = Inr ([], [])
   \<and> expected_calibration_error [0] [1] 10 = Inr 0
   \<and> calibration_curve [0, 1, 1] [1, 95 / 100, 35 / 100] 10
       = Inr ([35 / 100, 95 / 100], [1, 1])
   \<and> expected_calibration_error [0, 1, 1] [1, 95 / 100, 35 / 100] 10 = Inr (7 / 30)"
proof -
  have "bin_index 10 1 = 10"
    using bin_index_one [of 10] by simp
  moreover have "calibration_curve [0] [1] 10 = Inr ([], [])"
    by (simp add: calibration_curve_def bin_index_def digitize_def linspace01_def upt_rec)
  moreover have "expected_calibration_error [0] [1] 10 = Inr 0"
    by (simp add: expected_calibration_error_def bin_index_def digitize_def linspace01_def
          upt_rec)
  moreover have "calibration_curve [0, 1, 1] [1, 95 / 100, 35 / 100] 10
       = Inr ([35 / 100, 95 / 100], [1, 1])"
    by (simp add: calibration_curve_def bin_index_def digitize_def linspace01_def upt_rec
          masked_def np_mean_def)
  moreover have "expected_calibration_error [0, 1, 1] [1, 95 / 100, 35 / 100] 10 = Inr (7 / 30)"
    by (simp add: expected_calibration_error_def bin_index_def digitize_def linspace01_def
          upt_rec masked_def np_mean_def)
  ultimately show ?thesis by simp
qed

section \<open>Properties of the adversarial validation\<close>

lemma validate_frames:
  "fst (validate fold_aucs train_features test_features)
     = (set_column train_features ''is_test'' 0, set_column test_features ''is_test'' 1)"
  by (simp add: validate_def Let_def)

text \<open>
  C9.  \<open>validate\<close> labels the caller's two frames in place: whatever the cross-validation
  does afterwards (also when it raises), a training frame with the one column \<open>f0\<close> comes
  back with a second column \<open>is_test\<close> of zeros, and the candidate frame with a column
  \<open>is_test\<close> of ones.
\<close>

theorem validate_mutates_frames:
  "fst (validate fold_aucs small_train small_test)
     = (\<lparr> n_rows = 2, columns = [(''f0'', [1, 2]), (''is_test'', [0, 0])] \<rparr>,
        \<lparr> n_rows = 1, columns = [(''f0'', [3]), (''is_test'', [1])] \<rparr>)
   \<and> fst (fst (validate fold_aucs small_train small_test)) \<noteq> small_train
   \<and> snd (fst (validate fold_aucs small_train small_test)) \<noteq> small_test"
proof -
  have "set_column small_train ''is_test'' 0
          = \<lparr> n_rows = 2, columns = [(''f0'', [1, 2]), (''is_test'', [0, 0])] \<rparr>"
    by (simp add: set_column_def small_train_def numeral_2_eq_2)
  moreover have "set_column small_test ''is_test'' 1
          = \<lparr> n_rows = 1, columns = [(''f0'', [3]), (''is_test'', [1])] \<rparr>"
    by (simp add: set_column_def small_test_def)
  ultimately show ?thesis
    by (simp add: validate_frames small_train_def small_test_def)
qed

section \<open>Properties of the significant-pair discovery\<close>

lemma norm_cdf_zero: "norm_cdf 0 = 1 / 2"
  by (simp add: norm_cdf_def)

lemma fisher_p_value_ordinary:
  assumes "3 < n" "\<bar>corr\<bar> < 1"
  shows "fisher_p_value n corr
           = Some (2 * (1 - norm_cdf (\<bar>(1 / 2) * ln ((1 + corr) / (1 - corr))\<bar>
                                       / (1 / sqrt (of_int (n - 3))))))"
  using assms by (auto simp: fisher_p_value_def Let_def)

lemma significant_pair_retained:
  assumes "significant_pair eng cm thr pr = Some p"
  shows "thr \<le> \<bar>correlation p\<bar> \<and> p_value p < significance_level eng
       \<and> fisher_p_value (min_sample_size eng) (correlation p) = Some (p_value p)
       \<and> sample_size p = min_sample_size eng
       \<and> prop1 p = fst pr \<and> prop2 p = snd pr
       \<and> loc cm (fst pr) (snd pr) = Some (correlation p)"
  using assms
  by (auto simp: significant_pair_def Let_def split: option.splits if_splits)

lemma map_filter_member:
  "y \<in> set (List.map_filter f xs) \<Longrightarrow> \<exists>x \<in> set xs. f x = Some y"
  by (induction xs) (auto split: option.splits)

lemma find_significant_pairs_members:
  assumes "find_significant_pairs eng cm_arg thr = Inr pairs" "p \<in> set pairs"
  shows "\<exists>cm pr. (case cm_arg of None \<Rightarrow> correlation_matrix eng | Some m \<Rightarrow> Some m) = Some cm
           \<and> pr \<in> set (unique_pairs (labels cm))
           \<and> significant_pair eng cm thr pr = Some p"
proof -
  from assms(1) obtain cm where
    cm: "(case cm_arg of None \<Rightarrow> correlation_matrix eng | Some m \<Rightarrow> Some m) = Some cm"
    and pairs: "pairs = sort_key (\<lambda>p. - \<bar>correlation p\<bar>)
                  (List.map_filter (significant_pair eng cm thr) (unique_pairs (labels cm)))"
    by (auto simp: find_significant_pairs_def Let_def split: option.splits if_splits)
  from assms(2) pairs
  have "p \<in> set (List.map_filter (significant_pair eng cm thr) (unique_pairs (labels cm)))"
    by simp
  then obtain pr where "pr \<in> set (unique_pairs (labels cm))"
    "significant_pair eng cm thr pr = Some p"
    by (blast dest: map_filter_member)
  with cm show ?thesis by blast
qed

lemma find_significant_pairs_sorted:
  assumes "find_significant_pairs eng cm_arg thr = Inr pairs"
  shows "sorted_wrt (\<lambda>p q. \<bar>correlation q\<bar> \<le> \<bar>correlation p\<bar>) pairs"
proof -
  from assms obtain xs where "pairs = sort_key (\<lambda>p. - \<bar>correlation p\<bar>) xs"
    by (auto simp: find_significant_pairs_def Let_def split: option.splits if_splits)
  then have "sorted (map (\<lambda>p. - \<bar>correlation p\<bar>) pairs)"
    by simp
  then show ?thesis
    by (simp add: sorted_map)
qed

lemma fisher_p_value_uncorrelated: "fisher_p_value 30 0 = Some 1"
  by (simp add: fisher_p_value_def norm_cdf_zero)

lemma four_games_pearson:
  "pearson (column four_games ''A'') (column four_games ''B'') = Some 0"
  by (simp add: pearson_def co_moment_def column_def four_games_def np_mean_def)

lemma four_games_sample_cov:
  "sample_cov (column four_games ''A'') (column four_games ''B'') = Some 0"
  by (simp add: sample_cov_def co_moment_def column_def four_games_def np_mean_def)

lemma duplicate_games_pearson:
  "pearson (column duplicate_games ''QB_Pass_Yards'') (column duplicate_games ''Team_Pass_Yards'')
     = Some 1"
  by (simp add: pearson_def co_moment_def column_def duplicate_games_def np_mean_def)

lemma duplicate_games_sample_cov:
  "sample_cov (column duplicate_games ''QB_Pass_Yards'')
     (column duplicate_games ''Team_Pass_Yards'') = Some (12500 / 3)"
  by (simp add: sample_cov_def co_moment_def column_def duplicate_games_def np_mean_def)

lemma fisher_p_value_perfect: "fisher_p_value 30 1 = Some 0"
  by (simp add: fisher_p_value_def)

text \<open>
  C6, as stated, fails.  An engine with the default configuration is given four
  historical games in which two props move together perfectly.  With the default
  threshold it keeps the pair, and the sample size it reports (and uses in the standard
  error) is its configured minimum sample size 30, not the number 4 of supplied games.
  The same happens on four games of two uncorrelated props when the engine is constructed
  with the significance level 2 and asked with the threshold 0.
\<close>

theorem reported_sample_size_is_configured_minimum:
  "n_rows duplicate_games = 4
   \<and> calculate_prop_correlations default_engine duplicate_games
         [''QB_Pass_Yards'', ''Team_Pass_Yards''] = Inr (analysed_engine, duplicate_matrix)
   \<and> find_significant_pairs analysed_engine None (3 / 10) = Inr [duplicate_pair]
   \<and> sample_size duplicate_pair = 30
   \<and> n_rows four_games = 4
   \<and> calculate_prop_correlations lenient_engine four_games [''A'', ''B'']
       = Inr (lenient_analysed_engine, the (correlation_matrix lenient_analysed_engine))
   \<and> find_significant_pairs lenient_analysed_engine None 0 = Inr [uncorrelated_pair]
   \<and> sample_size uncorrelated_pair = 30"
proof -
  have "calculate_prop_correlations default_engine duplicate_games
         [''QB_Pass_Yards'', ''Team_Pass_Yards''] = Inr (analysed_engine, duplicate_matrix)"
    by (simp add: calculate_prop_correlations_def default_engine_def analysed_engine_def
          duplicate_matrix_def Let_def)
      (simp add: duplicate_games_def)
  moreover have "find_significant_pairs analysed_engine None (3 / 10) = Inr [duplicate_pair]"
    by (simp add: find_significant_pairs_def significant_pair_def analysed_engine_def
          duplicate_matrix_def duplicate_pair_def duplicate_games_pearson
          duplicate_games_sample_cov fisher_p_value_perfect Let_def)
  moreover have "calculate_prop_correlations lenient_engine four_games [''A'', ''B'']
       = Inr (lenient_analysed_engine, the (correlation_matrix lenient_analysed_engine))"
    by (simp add: calculate_prop_correlations_def lenient_engine_def
          lenient_analysed_engine_def Let_def)
      (simp add: four_games_def)
  moreover have "find_significant_pairs lenient_analysed_engine None 0 = Inr [uncorrelated_pair]"
    by (simp add: find_significant_pairs_def significant_pair_def lenient_analysed_engine_def
          uncorrelated_pair_def four_games_pearson four_games_sample_cov
          fisher_p_value_uncorrelated Let_def)
  ultimately show ?thesis
    by (simp add: duplicate_games_def four_games_def duplicate_pair_def uncorrelated_pair_def)
qed

text \<open>
  C6, amended.  Every retained pair has an absolute correlation at or above the threshold
  and a p-value below the significance level; the p-value is the one of the Fisher test
  with \<open>n\<close> the engine's configured minimum sample size (for \<open>n > 3\<close> and a correlation
  strictly between \<open>-1\<close> and \<open>1\<close>: twice the upper tail of the standard normal at
  \<open>|0.5 ln ((1 + r) / (1 - r))| / (1 / sqrt (n - 3))\<close>); the reported sample size is that
  configured minimum; and the list is in descending order of absolute correlation.
\<close>

theorem significant_pairs_use_configured_minimum:
  assumes "find_significant_pairs eng cm_arg thr = Inr pairs"
  shows "(\<forall>p \<in> set pairs.
            thr \<le> \<bar>correlation p\<bar>
          \<and> p_value p < significance_level eng
          \<and> fisher_p_value (min_sample_size eng) (correlation p) = Some (p_value p)
          \<and> (3 < min_sample_size eng \<and> \<bar>correlation p\<bar> < 1 \<longrightarrow>
               p_value p
                 = 2 * (1 - norm_cdf (\<bar>(1 / 2) * ln ((1 + correlation p) / (1 - correlation p))\<bar>
                                        / (1 / sqrt (of_int (min_sample_size eng - 3))))))
          \<and> sample_size p = min_sample_size eng)
       \<and> sorted_wrt (\<lambda>p q. \<bar>correlation q\<bar> \<le> \<bar>correlation p\<bar>) pairs"
proof -
  have "thr \<le> \<bar>correlation p\<bar>
          \<and> p_value p < significance_level eng
          \<and> fisher_p_value (min_sample_size eng) (correlation p) = Some (p_value p)
          \<and> (3 < min_sample_size eng \<and> \<bar>correlation p\<bar> < 1 \<longrightarrow>
               p_value p
                 = 2 * (1 - norm_cdf (\<bar>(1 / 2) * ln ((1 + correlation p) / (1 - correlation p))\<bar>
                                        / (1 / sqrt (of_int (min_sample_size eng - 3))))))
          \<and> sample_size p = min_sample_size eng"
    if "p \<in> set pairs" for p
  proof -
    from find_significant_pairs_members [OF assms that]
    obtain cm pr where "significant_pair eng cm thr pr = Some p" by blast
    from significant_pair_retained [OF this]
    have r: "thr \<le> \<bar>correlation p\<bar>" "p_value p < significance_level eng"
      "fisher_p_value (min_sample_size eng) (correlation p) = Some (p_value p)"
      "sample_size p = min_sample_size eng"
      by simp_all
    have "p_value p
        = 2 * (1 - norm_cdf (\<bar>(1 / 2) * ln ((1 + correlation p) / (1 - correlation p))\<bar>
                               / (1 / sqrt (of_int (min_sample_size eng - 3)))))"
      if "3 < min_sample_size eng" "\<bar>correlation p\<bar> < 1"
      using fisher_p_value_ordinary [OF that] r(3) by simp
    with r show ?thesis by blast
  qed
  with find_significant_pairs_sorted [OF assms] show ?thesis by blast
qed

lemma uncorrelated_matrix_pairs:
  "find_significant_pairs lenient_engine (Some uncorrelated_matrix) 0 = Inr [uncorrelated_pair]"
  by (simp add: find_significant_pairs_def significant_pair_def fisher_p_value_uncorrelated
        lenient_engine_def uncorrelated_matrix_def uncorrelated_pair_def Let_def)

theorem significant_pairs_use_configured_minimum_witness:
  "find_significant_pairs lenient_engine (Some uncorrelated_matrix) 0 = Inr [uncorrelated_pair]
   \<and> (0::real) \<le> \<bar>correlation uncorrelated_pair\<bar>
   \<and> p_value uncorrelated_pair < significance_level lenient_engine
   \<and> fisher_p_value (min_sample_size lenient_engine) (correlation uncorrelated_pair)
       = Some (p_value uncorrelated_pair)
   \<and> p_value uncorrelated_pair
       = 2 * (1 - norm_cdf (\<bar>(1 / 2) * ln ((1 + correlation uncorrelated_pair)
                                             / (1 - correlation uncorrelated_pair))\<bar>
                              / (1 / sqrt (of_int (min_sample_size lenient_engine - 3)))))
   \<and> sample_size uncorrelated_pair = min_sample_size lenient_engine
   \<and> sample_size uncorrelated_pair = 30"
proof -
  have a: "3 < min_sample_size lenient_engine" "\<bar>correlation uncorrelated_pair\<bar> < 1"
    by (simp_all add: lenient_engine_def uncorrelated_pair_def)
  have m: "uncorrelated_pair \<in> set [uncorrelated_pair]"
    by simp
  have "sample_size uncorrelated_pair = 30"
    by (simp add: uncorrelated_pair_def)
  with significant_pairs_use_configured_minimum [OF uncorrelated_matrix_pairs] a m
    uncorrelated_matrix_pairs
  show ?thesis by blast
qed

end
